theory Spec2Isabelle
  imports Complex_Main "HOL-Library.Sublist"
begin

section \<open>Doctor mode of npm-check-updates (src/lib/doctor.ts)\<close>

text \<open>
  The development embeds \<^verbatim>\<open>src/lib/doctor.ts\<close>: the helper \<^verbatim>\<open>npm\<close>, the validation in
  \<^verbatim>\<open>loadPackageFile\<close> and the session \<^verbatim>\<open>doctor\<close> with its nested \<^verbatim>\<open>runInstall\<close> and
  \<^verbatim>\<open>runTests\<close>. The code is asynchronous but strictly sequential (every effect is awaited),
  so a computation is a function from the world to an outcome and the next world.
  \<^verbatim>\<open>chalkInit\<close> only loads the colouring and has no counterpart here.
\<close>

subsection \<open>JavaScript values\<close>

text \<open>
  What \<^verbatim>\<open>JSON.parse\<close> returns; an object is the list of its entries, one for each key.
  \<^verbatim>\<open>undefined\<close> is \<open>None\<close> of \<open>json option\<close>.
\<close>

datatype json =
    JNull
  | JBool bool
  | JNum rat
  | JStr string
  | JArr "json list"
  | JObj "(string \<times> json) list"

text \<open>
  Values that can be thrown: an \<^verbatim>\<open>Error\<close> object with its message, the \<^verbatim>\<open>TypeError\<close> of a
  property read on \<^verbatim>\<open>null\<close>, and whatever a collaborator (a spawned process, the file
  system, the internal run) rejects with, kept as the text \<^verbatim>\<open>String(e)\<close> gives.
\<close>

datatype exn = Error string | TypeError string | Rejected string

fun exn_string :: "exn \<Rightarrow> string" where
  "exn_string (Error m) = ''Error: '' @ m"
| "exn_string (TypeError m) = ''TypeError: '' @ m"
| "exn_string (Rejected s) = s"

text \<open>Truthiness of a value, as \<^verbatim>\<open>!x\<close>, \<^verbatim>\<open>if (x)\<close> and \<^verbatim>\<open>||\<close> test it.\<close>

fun truthy :: "json option \<Rightarrow> bool" where
  "truthy None = False"
| "truthy (Some JNull) = False"
| "truthy (Some (JBool b)) = b"
| "truthy (Some (JNum n)) = (n \<noteq> 0)"
| "truthy (Some (JStr s)) = (s \<noteq> [])"
| "truthy (Some (JArr xs)) = True"
| "truthy (Some (JObj kvs)) = True"

fun truthy_str :: "string option \<Rightarrow> bool" where
  "truthy_str None = False"
| "truthy_str (Some s) = (s \<noteq> [])"

text \<open>
  \<^verbatim>\<open>x.k\<close> on a parsed value: a \<^verbatim>\<open>TypeError\<close> on \<^verbatim>\<open>null\<close>, the own property of an object,
  \<^verbatim>\<open>undefined\<close> otherwise. The keys read by the code (\<^verbatim>\<open>scripts\<close>, \<^verbatim>\<open>test\<close>, \<^verbatim>\<open>prepare\<close> and
  the four dependency sections) are not members of any built-in prototype.
\<close>

fun get_prop :: "json \<Rightarrow> string \<Rightarrow> exn + json option" where
  "get_prop JNull k = Inl (TypeError (''Cannot read properties of null (reading '' @ [CHR 0x27] @ k @ [CHR 0x27] @ '')''))"
| "get_prop (JObj kvs) k = Inr (map_of kvs k)"
| "get_prop v k = Inr None"

text \<open>\<^verbatim>\<open>x?.k\<close>: \<^verbatim>\<open>undefined\<close> when \<open>x\<close> is \<^verbatim>\<open>undefined\<close> or \<^verbatim>\<open>null\<close>, else \<^verbatim>\<open>x.k\<close>.\<close>

fun opt_prop :: "json option \<Rightarrow> string \<Rightarrow> json option" where
  "opt_prop (Some (JObj kvs)) k = map_of kvs k"
| "opt_prop v k = None"

fun show_nat :: "nat \<Rightarrow> string" where
  "show_nat n = (if n < 10 then [char_of (48 + n)] else show_nat (n div 10) @ [char_of (48 + n mod 10)])"

text \<open>
  The own enumerable properties that \<^verbatim>\<open>{...x}\<close> copies: the entries of an object, the
  indexed elements of an array, the indexed characters of a string, nothing for
  \<^verbatim>\<open>undefined\<close>, \<^verbatim>\<open>null\<close>, numbers and booleans.
\<close>

fun spread :: "json option \<Rightarrow> (string \<times> json) list" where
  "spread (Some (JObj kvs)) = kvs"
| "spread (Some (JArr xs)) = zip (map show_nat [0..<length xs]) xs"
| "spread (Some (JStr s)) = zip (map show_nat [0..<length s]) (map (\<lambda>c. JStr [c]) s)"
| "spread v = []"

text \<open>\<^verbatim>\<open>xs.join(' ')\<close> and \<^verbatim>\<open>s.split(' ')\<close>.\<close>

fun join_space :: "string list \<Rightarrow> string" where
  "join_space [] = []"
| "join_space [x] = x"
| "join_space (x # y # ys) = x @ '' '' @ join_space (y # ys)"

fun split_space :: "string \<Rightarrow> string list" where
  "split_space [] = [[]]"
| "split_space (c # cs) =
     (if c = CHR '' '' then [] # split_space cs
      else (case split_space cs of [] \<Rightarrow> [[c]] | w # ws \<Rightarrow> (c # w) # ws))"

subsection \<open>Options\<close>

text \<open>The fields of \<^verbatim>\<open>Options\<close> that doctor.ts reads or sets.\<close>

record options =
  packageManager :: "string option"
  doctorInstall :: "string option"
  doctorTest :: "string option"
  packageData :: "json option"
  packageFile :: "string option"
  silent :: bool
  doctor_flag :: bool

subsection \<open>The world: files and the observable trace\<close>

datatype prog = Npm | Yarn | Command string

datatype colour = Red | Blue | Green | GreenBold | Cyan

datatype event =
    EvRead string
  | EvWrite string string
  | EvRimraf string
  | EvSpawn prog "string list"
  | EvRun options
  | EvLog string
  | EvError string
  | EvPrintUpgrades "(string \<times> json) list" "(string \<times> string) list" nat

record world =
  files :: "string \<rightharpoonup> string"
  trace :: "event list"

text \<open>
  What a spawned process does: it fails with a value or succeeds, leaves the files of the
  working directory in some state, and writes chunks to its standard error.
\<close>

record proc_result =
  pr_error :: "exn option"
  pr_files :: "string \<rightharpoonup> string"
  pr_stderr :: "string list"

text \<open>
  The collaborators of the session, which are not part of doctor.ts. Each one sees the
  whole world (files and history), so it may behave differently at each call.
  \<^item> \<open>spawn_proc\<close>: the package manager wrappers \<^verbatim>\<open>spawnNpm\<close>, \<^verbatim>\<open>spawnYarn\<close> and
    \<^verbatim>\<open>spawn-please\<close>;
  \<^item> \<open>ncu_run\<close>: the \<^verbatim>\<open>run\<close> function passed to \<^verbatim>\<open>doctor\<close>; it returns the upgrade map
    (\<open>None\<close> is \<^verbatim>\<open>undefined\<close>) as its entries in \<^verbatim>\<open>Object.entries\<close> order, or rejects;
  \<^item> \<open>json_parse\<close>: \<^verbatim>\<open>JSON.parse\<close>, \<open>None\<close> when it throws;
  \<^item> \<open>upgradePackageData\<close>: \<^verbatim>\<open>./upgradePackageData\<close>, which rewrites the text of a
    package file given the current and the upgraded specifiers;
  \<^item> \<open>chalk\<close>: the colouring of \<^verbatim>\<open>./chalk\<close>; \<open>to_string\<close>: the string conversion of a
    template literal; \<open>argv\<close>: \<^verbatim>\<open>process.argv\<close>; \<open>read_error\<close>: what \<^verbatim>\<open>fs.readFile\<close>
    rejects with for a file it cannot read.
\<close>

record env =
  spawn_proc :: "prog \<Rightarrow> string list \<Rightarrow> world \<Rightarrow> proc_result"
  ncu_run :: "options \<Rightarrow> world \<Rightarrow> (exn + (string \<times> string) list option) \<times> (string \<rightharpoonup> string)"
  json_parse :: "string \<Rightarrow> json option"
  upgradePackageData :: "string \<Rightarrow> (string \<times> json option) list \<Rightarrow> (string \<times> string) list \<Rightarrow> string"
  chalk :: "colour \<Rightarrow> string \<Rightarrow> string"
  to_string :: "json option \<Rightarrow> string"
  argv :: "string list"
  read_error :: "string \<Rightarrow> exn"

subsection \<open>Computations\<close>

text \<open>
  A computation returns a value, throws, or ends the process with \<^verbatim>\<open>process.exit\<close>
  (which no \<^verbatim>\<open>catch\<close> intercepts).
\<close>

datatype 'a outcome = Val 'a | Thrown exn | Exited nat

type_synonym 'a m = "world \<Rightarrow> 'a outcome \<times> world"

definition ret :: "'a \<Rightarrow> 'a m" where
  "ret x = (\<lambda>w. (Val x, w))"

definition throw :: "exn \<Rightarrow> 'a m" where
  "throw e = (\<lambda>w. (Thrown e, w))"

definition process_exit :: "nat \<Rightarrow> 'a m" where
  "process_exit n = (\<lambda>w. (Exited n, w))"

definition bnd :: "'a m \<Rightarrow> ('a \<Rightarrow> 'b m) \<Rightarrow> 'b m" where
  "bnd f g = (\<lambda>w. case f w of
       (Val x, w') \<Rightarrow> g x w'
     | (Thrown e, w') \<Rightarrow> (Thrown e, w')
     | (Exited n, w') \<Rightarrow> (Exited n, w'))"

definition thn :: "'a m \<Rightarrow> 'b m \<Rightarrow> 'b m" where
  "thn f g = bnd f (\<lambda>_. g)"

text \<open>\<^verbatim>\<open>try { f } catch (e) { h(e) }\<close>.\<close>

definition try_catch :: "'a m \<Rightarrow> (exn \<Rightarrow> 'a m) \<Rightarrow> 'a m" where
  "try_catch f h = (\<lambda>w. case f w of
       (Thrown e, w') \<Rightarrow> h e w'
     | r \<Rightarrow> r)"

text \<open>
  \<open>attempt f\<close> runs \<open>f\<close> and hands a thrown value to the continuation as \<open>Inl\<close>: the
  handler of a \<^verbatim>\<open>try\<close> block that reads variables assigned inside the block is written
  with it, one \<open>attempt\<close> for each stretch of the block between two assignments.
\<close>

definition attempt :: "'a m \<Rightarrow> (exn + 'a) m" where
  "attempt f = (\<lambda>w. case f w of
       (Val x, w') \<Rightarrow> (Val (Inr x), w')
     | (Thrown e, w') \<Rightarrow> (Val (Inl e), w')
     | (Exited n, w') \<Rightarrow> (Exited n, w'))"

definition emit :: "event \<Rightarrow> unit m" where
  "emit e = (\<lambda>w. (Val (), w\<lparr>trace := trace w @ [e]\<rparr>))"

definition console_log :: "string \<Rightarrow> unit m" where
  "console_log s = emit (EvLog s)"

definition console_error :: "string \<Rightarrow> unit m" where
  "console_error s = emit (EvError s)"

text \<open>
  The file system: reading a file that is not there rejects; writing and removing always
  succeed.
\<close>

definition fs_readFile :: "env \<Rightarrow> string \<Rightarrow> string m" where
  "fs_readFile env f = (\<lambda>w. case files w f of
       Some c \<Rightarrow> (Val c, w\<lparr>trace := trace w @ [EvRead f]\<rparr>)
     | None \<Rightarrow> (Thrown (read_error env f), w\<lparr>trace := trace w @ [EvRead f]\<rparr>))"

definition fs_writeFile :: "string \<Rightarrow> string \<Rightarrow> unit m" where
  "fs_writeFile f c = (\<lambda>w. (Val (), w\<lparr>files := (files w)(f \<mapsto> c), trace := trace w @ [EvWrite f c]\<rparr>))"

definition rimraf_sync :: "string \<Rightarrow> unit m" where
  "rimraf_sync f = (\<lambda>w. (Val (), w\<lparr>files := (files w)(f := None), trace := trace w @ [EvRimraf f]\<rparr>))"

text \<open>
  Spawning a process. \<open>cb\<close> tells whether a \<^verbatim>\<open>stderr\<close> callback was passed on to the
  process; the one callback of the code prints each chunk in red on the error console.
\<close>

definition spawn :: "env \<Rightarrow> prog \<Rightarrow> string list \<Rightarrow> bool \<Rightarrow> unit m" where
  "spawn env p args cb = (\<lambda>w.
     let r = spawn_proc env p args w;
         chunks = (if cb then map (\<lambda>d. EvError (chalk env Red d)) (pr_stderr r) else []);
         w' = \<lparr>files = pr_files r, trace = trace w @ [EvSpawn p args] @ chunks\<rparr>
     in (case pr_error r of None \<Rightarrow> (Val (), w') | Some e \<Rightarrow> (Thrown e, w')))"

subsection \<open>npm (lines 18-34)\<close>

text \<open>
  The helper receives a fresh options object holding only \<^verbatim>\<open>packageManager\<close> (and, from
  \<^verbatim>\<open>runTests\<close>, the spawn options, which it does not pass on), so neither \<^verbatim>\<open>global\<close> nor
  \<^verbatim>\<open>prefix\<close> is ever set. An undefined element of the joined array prints as the empty
  string.
\<close>

definition npm :: "env \<Rightarrow> string list \<Rightarrow> string option \<Rightarrow> bool \<Rightarrow> unit m" where
  "npm env args pm print =
     thn (if print
          then console_log (chalk env Blue (join_space ((case pm of None \<Rightarrow> [] | Some s \<Rightarrow> s) # args)))
          else ret ())
         (spawn env (if pm = Some ''yarn'' then Yarn else Npm) args False)"

subsection \<open>loadPackageFile (lines 37-66)\<close>

definition loadPackageFile :: "env \<Rightarrow> options \<Rightarrow> (json \<times> string) m" where
  "loadPackageFile env opts =
     (if truthy (packageData opts) \<or> truthy_str (packageFile opts)
      then thn (console_error ''--packageData and --packageFile are not allowed with --doctor. You must execute \"ncu --doctor\" in a directory with a package file so it can install dependencies and test them.'')
               (process_exit 1)
      else bnd (attempt (bnd (fs_readFile env ''package.json'')
                  (\<lambda>pkgFile. case json_parse env pkgFile of
                       None \<Rightarrow> throw (Rejected ''SyntaxError'')
                     | Some pkg \<Rightarrow> ret (pkg, pkgFile))))
             (\<lambda>r. case r of
                 Inl e \<Rightarrow> thn (console_error ''Missing or invalid package.json'') (process_exit 1)
               | Inr (pkg, pkgFile) \<Rightarrow>
                   if truthy_str (doctorTest opts) then ret (pkg, pkgFile)
                   else (case get_prop pkg ''scripts'' of
                           Inl e \<Rightarrow> throw e
                         | Inr scripts \<Rightarrow>
                             if \<not> truthy (opt_prop scripts ''test'')
                             then thn (console_error ''No npm \"test\" script defined. You must define a \"test\" script in the \"scripts\" section of your package.json to use --doctor.'')
                                      (process_exit 1)
                             else ret (pkg, pkgFile))))"

subsection \<open>doctor (lines 70-263)\<close>

text \<open>The UTF-8 bytes of the check mark, the cross and the arrow that the session prints.\<close>

definition check_mark :: string where
  "check_mark = [CHR 0xE2, CHR 0x9C, CHR 0x93]"

definition cross_mark :: string where
  "cross_mark = [CHR 0xE2, CHR 0x9C, CHR 0x97]"

definition arrow :: string where
  "arrow = [CHR 0xE2, CHR 0x86, CHR 0x92]"

definition lockFileName :: "options \<Rightarrow> string" where
  "lockFileName opts = (if packageManager opts = Some ''yarn'' then ''yarn.lock'' else ''package-lock.json'')"

text \<open>
  Lines 75-80. The merged object is only read by key and handed to the report, so it is
  kept as an association list read with \<open>map_of\<close> (the first entry of a key counts):
  the sections spread later come first.
\<close>

definition allDependencies_of :: "json \<Rightarrow> exn + (string \<times> json) list" where
  "allDependencies_of p =
     (case get_prop p ''dependencies'' of Inl e \<Rightarrow> Inl e | Inr deps \<Rightarrow>
     (case get_prop p ''devDependencies'' of Inl e \<Rightarrow> Inl e | Inr dev \<Rightarrow>
     (case get_prop p ''optionalDependencies'' of Inl e \<Rightarrow> Inl e | Inr opt \<Rightarrow>
     (case get_prop p ''bundleDependencies'' of Inl e \<Rightarrow> Inl e | Inr bundle \<Rightarrow>
        Inr (spread bundle @ spread opt @ spread dev @ spread deps)))))"

text \<open>Lines 83-90.\<close>

definition runInstall :: "env \<Rightarrow> options \<Rightarrow> unit m" where
  "runInstall env opts =
     (if truthy_str (doctorInstall opts)
      then (case split_space (the (doctorInstall opts)) of
              [] \<Rightarrow> throw (TypeError ''The \"file\" argument must be of type string. Received undefined'')
            | installCommand # testArgs \<Rightarrow> spawn env (Command installCommand) testArgs False)
      else npm env [''install''] (packageManager opts) True)"

text \<open>
  Lines 93-107. \<open>cb\<close> tells whether the caller passed spawn options with a \<^verbatim>\<open>stderr\<close>
  callback; only the custom test command receives them.
\<close>

definition runTests :: "env \<Rightarrow> options \<Rightarrow> bool \<Rightarrow> unit m" where
  "runTests env opts cb =
     (if truthy_str (doctorTest opts)
      then (case split_space (the (doctorTest opts)) of
              [] \<Rightarrow> throw (TypeError ''The \"file\" argument must be of type string. Received undefined'')
            | testCommand # testArgs \<Rightarrow> spawn env (Command testCommand) testArgs cb)
      else npm env [''run'', ''test''] (packageManager opts) True)"

text \<open>The call of the \<^verbatim>\<open>run\<close> parameter (lines 143-147).\<close>

definition run :: "env \<Rightarrow> options \<Rightarrow> (string \<times> string) list option m" where
  "run env opts = (\<lambda>w.
     let w' = \<lparr>files = snd (ncu_run env opts w), trace = trace w @ [EvRun opts]\<rparr>
     in (case fst (ncu_run env opts w) of Inl e \<Rightarrow> (Thrown e, w') | Inr u \<Rightarrow> (Val u, w')))"

text \<open>The constants of a session once the upgrade map is known.\<close>

record session =
  pkg :: json
  pkgFile :: string
  allDependencies :: "(string \<times> json) list"
  baseLockFile :: string
  upgrades :: "(string \<times> string) list"

text \<open>
  Lines 120-152: the baseline test and the internal run, given the parsed package file
  \<open>p\<close>, its text \<open>pf\<close>, the merged dependencies and the saved lock file \<open>lf\<close>.
  \<open>None\<close> is the early \<^verbatim>\<open>return\<close> of line 151.
\<close>

definition obtain_upgrades ::
  "env \<Rightarrow> options \<Rightarrow> json \<Rightarrow> string \<Rightarrow> (string \<times> json) list \<Rightarrow> string \<Rightarrow> session option m" where
  "obtain_upgrades env opts p pf deps lf =
     thn (try_catch (runTests env opts True)
            (\<lambda>e. thn (console_error ''Tests failed before we even got started!'') (process_exit 1)))
    (thn (console_log ''Upgrading all dependencies and re-running tests'')
    (thn (console_log (chalk env Blue
            (''ncu '' @ join_space (filter (\<lambda>arg. arg \<noteq> ''--doctor'') (drop 2 (argv env))))))
    (bnd (run env (opts\<lparr>silent := True, doctor_flag := False\<rparr>)) (\<lambda>u.
     if length (case u of None \<Rightarrow> [] | Some kvs \<Rightarrow> kvs) = 0
     then thn (console_log (''All dependencies are up-to-date '' @ chalk env GreenBold '':)'')) (ret None)
     else ret (Some \<lparr>pkg = p, pkgFile = pf, allDependencies = deps, baseLockFile = lf,
                     upgrades = the u\<rparr>)))))"

text \<open>
  Lines 71-152: validation, the baseline install, the snapshot of the lock file, then the
  baseline test and the internal run.
\<close>

definition prepare_session :: "env \<Rightarrow> options \<Rightarrow> session option m" where
  "prepare_session env opts =
     bnd (loadPackageFile env opts) (\<lambda>(p, pf).
     case allDependencies_of p of Inl e \<Rightarrow> throw e | Inr deps \<Rightarrow>
     thn (console_log ''Running tests before upgrading'')
    (thn (runInstall env opts)
    (bnd (try_catch (fs_readFile env (lockFileName opts)) (\<lambda>e. ret []))
         (\<lambda>lf. obtain_upgrades env opts p pf deps lf))))"

text \<open>Lines 177-190: report the failure, put the package file and the lock file back.\<close>

definition restore_baseline :: "env \<Rightarrow> options \<Rightarrow> session \<Rightarrow> bool \<Rightarrow> unit m" where
  "restore_baseline env opts s installAllSuccess =
     thn (console_error (chalk env Red (if installAllSuccess then ''Tests failed'' else ''Install failed'')))
    (thn (console_log ''Identifying broken dependencies'')
    (thn (fs_writeFile ''package.json'' (pkgFile s))
         (if baseLockFile s \<noteq> [] then fs_writeFile (lockFileName opts) (baseLockFile s)
          else rimraf_sync (lockFileName opts))))"

text \<open>Lines 194-205.\<close>

definition reinstall :: "env \<Rightarrow> options \<Rightarrow> bool \<Rightarrow> unit m" where
  "reinstall env opts installAllSuccess =
     (if installAllSuccess
      then try_catch (runInstall env opts)
             (\<lambda>e. let installCommand =
                        (if truthy_str (packageManager opts) then the (packageManager opts) else ''npm'') @ '' install''
                  in throw (Error (''Error: Doctor mode was about to test individual upgrades, but '' @
                       chalk env Cyan installCommand @
                       '' failed after rolling back to your existing package and lock files. This is unexpected since the initial install before any upgrades succeeded. Either npm failed to revert a partial install, or failed anomalously on the second run. Please check your internet connection and retry. If doctor mode fails consistently, report a bug with your complete list of dependency versions at https://github.com/raineorshine/npm-check-updates/issues.'')))
      else ret ())"

text \<open>The \<^verbatim>\<open>try\<close> block of one iteration up to the report of success (lines 212-231).\<close>

definition step_try :: "env \<Rightarrow> options \<Rightarrow> session \<Rightarrow> string \<Rightarrow> string \<Rightarrow> unit m" where
  "step_try env opts s name version =
     thn (npm env ((if packageManager opts = Some ''yarn'' then [''add''] else [''install'', ''--no-save''])
                   @ [name @ ''@'' @ version]) (packageManager opts) True)
    (thn (case get_prop (pkg s) ''scripts'' of
            Inl e \<Rightarrow> throw e
          | Inr scripts \<Rightarrow>
              if truthy (opt_prop scripts ''prepare'')
              then try_catch (npm env [''run'', ''prepare''] (packageManager opts) True)
                     (\<lambda>e. thn (console_error (chalk env Red ''Prepare script failed'')) (throw e))
              else ret ())
    (thn (runTests env opts False)
         (console_log (''  '' @ chalk env Green check_mark @ '' '' @ name @ '' '' @
                       to_string env (map_of (allDependencies s) name) @ '' '' @ arrow @ '' '' @ version))))"

text \<open>The \<^verbatim>\<open>catch\<close> block of one iteration (lines 239-249).\<close>

definition step_catch ::
  "env \<Rightarrow> options \<Rightarrow> session \<Rightarrow> string \<Rightarrow> string \<Rightarrow> exn \<Rightarrow> string \<times> string \<Rightarrow> (string \<times> string) m" where
  "step_catch env opts s name version e st =
     thn (console_error (''  '' @ chalk env Red cross_mark @ '' '' @ name @ '' '' @
                         to_string env (map_of (allDependencies s) name) @ '' '' @ arrow @ '' '' @ version @ [CHR 0x0A]))
    (thn (console_error (chalk env Red (exn_string e)))
    (thn (fs_writeFile (lockFileName opts) (snd st))
    (thn (if packageManager opts = Some ''yarn'' then fs_writeFile ''package.json'' (fst st) else ret ())
         (ret st))))"

text \<open>
  One iteration (lines 210-250) on the pair of \<^verbatim>\<open>lastPkgFile\<close> and \<^verbatim>\<open>lockFile\<close>. The
  handler sees \<^verbatim>\<open>lastPkgFile\<close> as line 234 left it when the read of line 237 fails.
\<close>

definition bisect_step ::
  "env \<Rightarrow> options \<Rightarrow> session \<Rightarrow> string \<times> string \<Rightarrow> string \<times> string \<Rightarrow> (string \<times> string) m" where
  "bisect_step env opts s entry st =
     bnd (attempt (step_try env opts s (fst entry) (snd entry))) (\<lambda>r. case r of
         Inl e \<Rightarrow> step_catch env opts s (fst entry) (snd entry) e st
       | Inr _ \<Rightarrow>
           let lastPkgFile = upgradePackageData env (fst st)
                               [(fst entry, map_of (allDependencies s) (fst entry))] [entry]
           in bnd (attempt (fs_readFile env (lockFileName opts))) (\<lambda>r2. case r2 of
                  Inl e \<Rightarrow> step_catch env opts s (fst entry) (snd entry) e (lastPkgFile, snd st)
                | Inr lf \<Rightarrow> ret (lastPkgFile, lf)))"

text \<open>The loop of line 209.\<close>

fun bisect :: "env \<Rightarrow> options \<Rightarrow> session \<Rightarrow> (string \<times> string) list \<Rightarrow> string \<times> string \<Rightarrow> (string \<times> string) m" where
  "bisect env opts s [] st = ret st"
| "bisect env opts s (entry # rest) st =
     bnd (bisect_step env opts s entry st) (\<lambda>st'. bisect env opts s rest st')"

text \<open>Lines 255-261.\<close>

definition finish :: "env \<Rightarrow> options \<Rightarrow> session \<Rightarrow> string \<Rightarrow> unit m" where
  "finish env opts s lastPkgFile =
     thn (if lastPkgFile \<noteq> pkgFile s
          then thn (console_log ''Saving partially upgraded package.json'')
                   (fs_writeFile ''package.json'' lastPkgFile)
          else ret ())
         (runInstall env opts)"

text \<open>Lines 177-205: what the handler does before the loop.\<close>

definition rollback :: "env \<Rightarrow> options \<Rightarrow> session \<Rightarrow> bool \<Rightarrow> unit m" where
  "rollback env opts s installAllSuccess =
     thn (restore_baseline env opts s installAllSuccess) (reinstall env opts installAllSuccess)"

text \<open>Lines 209-261: the loop and what follows it.\<close>

definition bisect_and_finish :: "env \<Rightarrow> options \<Rightarrow> session \<Rightarrow> unit m" where
  "bisect_and_finish env opts s =
     bnd (bisect env opts s (upgrades s) (pkgFile s, baseLockFile s))
         (\<lambda>st. finish env opts s (fst st))"

text \<open>The \<^verbatim>\<open>catch\<close> block of lines 176-262.\<close>

definition recover :: "env \<Rightarrow> options \<Rightarrow> session \<Rightarrow> bool \<Rightarrow> unit m" where
  "recover env opts s installAllSuccess =
     thn (rollback env opts s installAllSuccess) (bisect_and_finish env opts s)"

text \<open>
  The report of lines 167-175, after the install and the tests of all upgrades.
  \<^verbatim>\<open>printUpgrades\<close> of \<^verbatim>\<open>lib/logging\<close> only prints: it is one event with its arguments.
\<close>

definition report_all :: "env \<Rightarrow> session \<Rightarrow> unit m" where
  "report_all env s =
     thn (console_log (chalk env Green check_mark @ '' Tests pass''))
    (thn (emit (EvPrintUpgrades (allDependencies s) (upgrades s) (length (upgrades s))))
         (console_log ([CHR 0x0A] @ ''All dependencies upgraded and installed '' @ chalk env Green '':)'')))"

text \<open>
  The \<^verbatim>\<open>try\<close> block of lines 159-175. When the block throws, the result is \<open>Inl\<close> of the
  value \<^verbatim>\<open>installAllSuccess\<close> has at that moment: \<open>False\<close> when the install of line 161
  threw, \<open>True\<close> when the tests of line 165 threw.
\<close>

definition try_all :: "env \<Rightarrow> options \<Rightarrow> session \<Rightarrow> (bool + unit) m" where
  "try_all env opts s =
     bnd (attempt (runInstall env opts)) (\<lambda>r. case r of
         Inl e \<Rightarrow> ret (Inl False)
       | Inr _ \<Rightarrow> bnd (attempt (thn (runTests env opts False) (report_all env s))) (\<lambda>r2. case r2 of
             Inl e \<Rightarrow> ret (Inl True)
           | Inr _ \<Rightarrow> ret (Inr ())))"

text \<open>Lines 154-262.\<close>

definition verify_all :: "env \<Rightarrow> options \<Rightarrow> session \<Rightarrow> unit m" where
  "verify_all env opts s =
     bnd (try_all env opts s) (\<lambda>r. case r of
         Inl installAllSuccess \<Rightarrow> recover env opts s installAllSuccess
       | Inr _ \<Rightarrow> ret ())"

definition doctor :: "env \<Rightarrow> options \<Rightarrow> unit m" where
  "doctor env opts =
     bnd (prepare_session env opts) (\<lambda>r. case r of
         None \<Rightarrow> ret ()
       | Some s \<Rightarrow> verify_all env opts s)"

section \<open>Notions used in the statements\<close>

text \<open>
  The test of line 58 on the text of a package file: the text parses, no custom test
  command is configured, \<^verbatim>\<open>pkg.scripts?.test\<close> evaluates and is falsy.
\<close>

definition lacks_test :: "env \<Rightarrow> options \<Rightarrow> string \<Rightarrow> bool" where
  "lacks_test env opts t =
     (case json_parse env t of
        None \<Rightarrow> False
      | Some p \<Rightarrow> \<not> truthy_str (doctorTest opts) \<and>
          (case get_prop p ''scripts'' of Inl e \<Rightarrow> False | Inr sc \<Rightarrow> \<not> truthy (opt_prop sc ''test'')))"

text \<open>The world in which the baseline install of line 112 starts.\<close>

definition baseline_world :: "world \<Rightarrow> world" where
  "baseline_world w = w\<lparr>trace := trace w @ [EvRead ''package.json'', EvLog ''Running tests before upgrading'']\<rparr>"

text \<open>The world the baseline install leaves, in which line 117 reads the lock file.\<close>

definition snapshot_world :: "env \<Rightarrow> options \<Rightarrow> world \<Rightarrow> world" where
  "snapshot_world env opts w = snd (runInstall env opts (baseline_world w))"

text \<open>Events by which the session itself changes a file.\<close>

fun is_write :: "event \<Rightarrow> bool" where
  "is_write (EvWrite f c) = True"
| "is_write (EvRimraf f) = True"
| "is_write e = False"

text \<open>Events that neither spawn a process, nor run the upgrade, nor change a file.\<close>

fun is_quiet :: "event \<Rightarrow> bool" where
  "is_quiet (EvRead f) = True"
| "is_quiet (EvLog t) = True"
| "is_quiet (EvError t) = True"
| "is_quiet e = False"

text \<open>A computation that, from any world, only appends events satisfying \<open>P\<close> to the trace.\<close>

definition appends :: "(event \<Rightarrow> bool) \<Rightarrow> 'a m \<Rightarrow> bool" where
  "appends P f \<longleftrightarrow> (\<forall>w. \<exists>evs. trace (snd (f w)) = trace w @ evs \<and> list_all P evs)"

text \<open>A computation that never ends the process.\<close>

definition never_exits :: "'a m \<Rightarrow> bool" where
  "never_exits f \<longleftrightarrow> (\<forall>w n. fst (f w) \<noteq> Exited n)"

section \<open>A sample project\<close>

text \<open>
  A project with three dependencies \<open>a\<close>, \<open>b\<close>, \<open>c\<close>, each with an upgrade to version 2. The
  pseudo file \<open>node_modules\<close> stands for the installed tree. A full install installs what
  package.json lists and writes the lock file; a single install installs that package
  and extends the lock file; the tests fail when all upgrades or the upgrade of \<open>b\<close> are
  installed. The command \<open>lazy\<close> installs what package.json lists and writes the lock file
  only when it replaces an installed tree. The command \<open>true\<close> and every other command
  succeed and change nothing.
\<close>

definition sample_pkg :: json where
  "sample_pkg = JObj [
     (''scripts'', JObj [(''test'', JStr ''mocha''), (''prepare'', JStr ''husky'')]),
     (''dependencies'', JObj [(''a'', JStr ''1''), (''b'', JStr ''1'')]),
     (''devDependencies'', JObj [(''c'', JStr ''1'')])]"

definition sample_parse :: "string \<Rightarrow> json option" where
  "sample_parse t =
     (if t = ''{}'' then Some (JObj []) else if t = ''null'' then Some JNull
      else if t = ''?'' then None else Some sample_pkg)"

definition sample_spawn :: "prog \<Rightarrow> string list \<Rightarrow> world \<Rightarrow> proc_result" where
  "sample_spawn p args w =
     (if p = Npm \<and> args = [''install''] then
        \<lparr>pr_error = None,
         pr_files = (files w)(''node_modules'' := files w ''package.json'', ''package-lock.json'' \<mapsto> ''L''),
         pr_stderr = []\<rparr>
      else if p = Npm \<and> args = [''run'', ''test''] then
        \<lparr>pr_error = (if files w ''node_modules'' = Some ''P9'' \<or> files w ''node_modules'' = Some ''b@2''
                     then Some (Rejected ''failed'') else None),
         pr_files = files w, pr_stderr = [''warn'']\<rparr>
      else if p = Npm \<and> take 2 args = [''install'', ''--no-save''] then
        \<lparr>pr_error = None,
         pr_files = (files w)(''node_modules'' \<mapsto> last args, ''package-lock.json'' \<mapsto> ''L+'' @ last args),
         pr_stderr = []\<rparr>
      else if p = Command ''lazy'' then
        \<lparr>pr_error = None,
         pr_files = (if files w ''node_modules'' = None
                     then (files w)(''node_modules'' := files w ''package.json'')
                     else (files w)(''node_modules'' := files w ''package.json'', ''package-lock.json'' \<mapsto> ''L'')),
         pr_stderr = []\<rparr>
      else \<lparr>pr_error = None, pr_files = files w, pr_stderr = []\<rparr>)"

definition sample_env :: env where
  "sample_env = \<lparr>
     spawn_proc = sample_spawn,
     ncu_run = (\<lambda>opts w. (Inr (Some [(''a'', ''2''), (''b'', ''2''), (''c'', ''2'')]),
                          (files w)(''package.json'' \<mapsto> ''P9''))),
     json_parse = sample_parse,
     upgradePackageData = (\<lambda>t cur up. t @ concat (map (\<lambda>(n, v). ''+'' @ n @ ''@'' @ v) up)),
     chalk = (\<lambda>c t. t),
     to_string = (\<lambda>v. case v of Some (JStr t) \<Rightarrow> t | _ \<Rightarrow> ''undefined''),
     argv = [''node'', ''ncu'', ''--doctor''],
     read_error = (\<lambda>f. Rejected ''ENOENT'')\<rparr>"

definition sample_opts :: options where
  "sample_opts = \<lparr>packageManager = Some ''npm'', doctorInstall = None, doctorTest = None,
     packageData = None, packageFile = None, silent = False, doctor_flag = True\<rparr>"

definition sample_world :: world where
  "sample_world = \<lparr>files = [''package.json'' \<mapsto> ''P0'', ''package-lock.json'' \<mapsto> ''L0''], trace = []\<rparr>"

text \<open>The session of the sample project once its upgrades are known.\<close>

definition sample_session :: session where
  "sample_session = \<lparr>pkg = sample_pkg, pkgFile = ''P0'',
     allDependencies = [(''c'', JStr ''1''), (''a'', JStr ''1''), (''b'', JStr ''1'')],
     baseLockFile = ''L'', upgrades = [(''a'', ''2''), (''b'', ''2''), (''c'', ''2'')]\<rparr>"

text \<open>The sample project when every full install fails once the session has written a file.\<close>

definition flaky_env :: env where
  "flaky_env = sample_env\<lparr>spawn_proc := (\<lambda>p args w.
     if args = [''install''] \<and> list_ex is_write (trace w)
     then \<lparr>pr_error = Some (Rejected ''ECONNRESET''), pr_files = files w, pr_stderr = []\<rparr>
     else sample_spawn p args w)\<rparr>"

text \<open>
  The sample project installed by the custom command \<open>make deps\<close>, which does what the
  full install of npm does until the session has written a file, and fails from then on.
\<close>

definition make_env :: env where
  "make_env = sample_env\<lparr>spawn_proc := (\<lambda>p args w.
     if p = Command ''make''
     then (if list_ex is_write (trace w)
           then \<lparr>pr_error = Some (Rejected ''ECONNRESET''), pr_files = files w, pr_stderr = []\<rparr>
           else sample_spawn Npm [''install''] w)
     else sample_spawn p args w)\<rparr>"

definition make_opts :: options where
  "make_opts = sample_opts\<lparr>doctorInstall := Some ''make deps''\<rparr>"

text \<open>The sample project installed by the command \<open>lazy\<close>, starting without a lock file.\<close>

definition bare_opts :: options where
  "bare_opts = sample_opts\<lparr>doctorInstall := Some ''lazy''\<rparr>"

definition bare_world :: world where
  "bare_world = \<lparr>files = [''package.json'' \<mapsto> ''P0''], trace = []\<rparr>"

text \<open>The sample project when its prepare script fails.\<close>

definition broken_prepare_env :: env where
  "broken_prepare_env = sample_env\<lparr>spawn_proc := (\<lambda>p args w.
     if args = [''run'', ''prepare'']
     then \<lparr>pr_error = Some (Rejected ''husky: not found''), pr_files = files w, pr_stderr = []\<rparr>
     else sample_spawn p args w)\<rparr>"

section \<open>Properties\<close>

subsection \<open>Running computations step by step\<close>

lemma bnd_Val: "f w = (Val x, w') \<Longrightarrow> bnd f g w = g x w'"
  by (simp add: bnd_def)

lemma bnd_Thrown: "f w = (Thrown e, w') \<Longrightarrow> bnd f g w = (Thrown e, w')"
  by (simp add: bnd_def)

lemma bnd_Exited: "f w = (Exited n, w') \<Longrightarrow> bnd f g w = (Exited n, w')"
  by (simp add: bnd_def)

lemma thn_Val: "f w = (Val x, w') \<Longrightarrow> thn f g w = g w'"
  by (simp add: thn_def bnd_def)

lemma thn_Thrown: "f w = (Thrown e, w') \<Longrightarrow> thn f g w = (Thrown e, w')"
  by (simp add: thn_def bnd_def)

lemma attempt_Val: "f w = (Val x, w') \<Longrightarrow> attempt f w = (Val (Inr x), w')"
  by (simp add: attempt_def)

lemma attempt_Thrown: "f w = (Thrown e, w') \<Longrightarrow> attempt f w = (Val (Inl e), w')"
  by (simp add: attempt_def)

lemma try_catch_Val: "f w = (Val x, w') \<Longrightarrow> try_catch f h w = (Val x, w')"
  by (simp add: try_catch_def)

lemma try_catch_Thrown: "f w = (Thrown e, w') \<Longrightarrow> try_catch f h w = h e w'"
  by (simp add: try_catch_def)

subsection \<open>Computations that only append events of one kind\<close>


lemma appendsD: "appends P f \<Longrightarrow> f w = (r, w') \<Longrightarrow> \<exists>evs. trace w' = trace w @ evs \<and> list_all P evs"
  by (metis appends_def snd_conv)

lemma appends_ret: "appends P (ret x)"
  by (simp add: appends_def ret_def)

lemma appends_throw: "appends P (throw e)"
  by (simp add: appends_def throw_def)

lemma appends_exit: "appends P (process_exit n)"
  by (simp add: appends_def process_exit_def)

lemma appends_emit: "P e \<Longrightarrow> appends P (emit e)"
  by (simp add: appends_def emit_def)

lemma appends_bnd:
  assumes "appends P f" and "\<And>x. appends P (g x)"
  shows "appends P (bnd f g)"
  unfolding appends_def
proof
  fix w
  obtain r w1 where fw: "f w = (r, w1)" by (cases "f w")
  from appendsD [OF assms(1) fw] obtain evs where e1: "trace w1 = trace w @ evs" "list_all P evs"
    by blast
  show "\<exists>evs. trace (snd (bnd f g w)) = trace w @ evs \<and> list_all P evs"
  proof (cases r)
    case (Val x)
    obtain r2 w2 where gw: "g x w1 = (r2, w2)" by (cases "g x w1")
    from appendsD [OF assms(2) gw] obtain evs2 where e2: "trace w2 = trace w1 @ evs2" "list_all P evs2"
      by blast
    have "bnd f g w = (r2, w2)" using fw Val gw by (simp add: bnd_def)
    with e1 e2 show ?thesis by auto
  next
    case (Thrown e)
    with fw e1 show ?thesis by (auto simp: bnd_def)
  next
    case (Exited n)
    with fw e1 show ?thesis by (auto simp: bnd_def)
  qed
qed

lemma appends_thn: "appends P f \<Longrightarrow> appends P g \<Longrightarrow> appends P (thn f g)"
  by (simp add: thn_def appends_bnd)

lemma appends_attempt: "appends P f \<Longrightarrow> appends P (attempt f)"
  unfolding appends_def attempt_def
  by (auto split: prod.splits outcome.splits) (metis snd_conv)+

lemma appends_try_catch:
  assumes "appends P f" and "\<And>e. appends P (h e)"
  shows "appends P (try_catch f h)"
proof -
  have "try_catch f h = bnd (attempt f) (\<lambda>r. case r of Inl e \<Rightarrow> h e | Inr x \<Rightarrow> ret x)"
    by (auto simp: try_catch_def bnd_def attempt_def ret_def fun_eq_iff split: prod.splits outcome.splits)
  then show ?thesis
    using assms by (auto intro!: appends_bnd appends_attempt appends_ret split: sum.splits)
qed

lemma appends_if: "(c \<Longrightarrow> appends P f) \<Longrightarrow> (\<not> c \<Longrightarrow> appends P g) \<Longrightarrow> appends P (if c then f else g)"
  by simp


lemma appends_spawn: "P (EvSpawn p args) \<Longrightarrow> (\<And>t. P (EvError t)) \<Longrightarrow> appends P (spawn env p args cb)"
  by (auto simp: appends_def spawn_def Let_def list_all_iff split: option.splits)

lemma appends_log: "P (EvLog t) \<Longrightarrow> appends P (console_log t)"
  by (simp add: console_log_def appends_emit)

lemma appends_error: "P (EvError t) \<Longrightarrow> appends P (console_error t)"
  by (simp add: console_error_def appends_emit)

lemma appends_readFile: "P (EvRead f) \<Longrightarrow> appends P (fs_readFile env f)"
  by (auto simp: appends_def fs_readFile_def split: option.splits)

lemma appends_writeFile: "P (EvWrite f c) \<Longrightarrow> appends P (fs_writeFile f c)"
  by (simp add: appends_def fs_writeFile_def)

lemma appends_rimraf: "P (EvRimraf f) \<Longrightarrow> appends P (rimraf_sync f)"
  by (simp add: appends_def rimraf_sync_def)

lemma appends_run: "P (EvRun o') \<Longrightarrow> appends P (run env o')"
  by (auto simp: appends_def run_def Let_def split: sum.splits)

lemmas appends_intros = appends_ret appends_throw appends_exit appends_emit appends_bnd appends_thn
  appends_attempt appends_try_catch appends_spawn appends_log appends_error appends_readFile
  appends_writeFile appends_rimraf appends_run





lemma appends_npm: "(\<And>t. P (EvLog t)) \<Longrightarrow> (\<And>p a. P (EvSpawn p a)) \<Longrightarrow> (\<And>t. P (EvError t)) \<Longrightarrow> appends P (npm env args pm print)"
  unfolding npm_def by (intro appends_intros appends_if) auto

lemma appends_runInstall: "(\<And>t. P (EvLog t)) \<Longrightarrow> (\<And>p a. P (EvSpawn p a)) \<Longrightarrow> (\<And>t. P (EvError t)) \<Longrightarrow> appends P (runInstall env opts)"
  unfolding runInstall_def by (auto intro!: appends_intros appends_npm split: list.splits)

lemma appends_runTests: "(\<And>t. P (EvLog t)) \<Longrightarrow> (\<And>p a. P (EvSpawn p a)) \<Longrightarrow> (\<And>t. P (EvError t)) \<Longrightarrow> appends P (runTests env opts cb)"
  unfolding runTests_def by (auto intro!: appends_intros appends_npm split: list.splits)

lemma appends_loadPackageFile: "appends is_quiet (loadPackageFile env opts)"
  unfolding loadPackageFile_def
  by (auto intro!: appends_intros split: option.splits sum.splits prod.splits)

lemma appends_prepare_session: "appends (\<lambda>e. \<not> is_write e) (prepare_session env opts)"
  unfolding prepare_session_def obtain_upgrades_def loadPackageFile_def
  by (auto intro!: appends_intros appends_runInstall appends_runTests split: option.splits sum.splits prod.splits)






subsection \<open>Validation\<close>

lemma loadPackageFile_args:
  "truthy (packageData opts) \<or> truthy_str (packageFile opts) \<Longrightarrow>
   loadPackageFile env opts w = (Exited 1, w\<lparr>trace := trace w @ [EvError ''--packageData and --packageFile are not allowed with --doctor. You must execute \"ncu --doctor\" in a directory with a package file so it can install dependencies and test them.'']\<rparr>)"
  by (simp add: loadPackageFile_def thn_def bnd_def console_error_def emit_def process_exit_def)

lemma loadPackageFile_missing:
  "\<not> truthy (packageData opts) \<Longrightarrow> \<not> truthy_str (packageFile opts) \<Longrightarrow>
   files w ''package.json'' = None \<or> (\<exists>t. files w ''package.json'' = Some t \<and> json_parse env t = None) \<Longrightarrow>
   loadPackageFile env opts w =
     (Exited 1, w\<lparr>trace := trace w @ [EvRead ''package.json'', EvError ''Missing or invalid package.json'']\<rparr>)"
  by (auto simp: loadPackageFile_def thn_def bnd_def attempt_def fs_readFile_def throw_def
      console_error_def emit_def process_exit_def)

lemma loadPackageFile_no_test:
  "\<not> truthy (packageData opts) \<Longrightarrow> \<not> truthy_str (packageFile opts) \<Longrightarrow>
   files w ''package.json'' = Some t \<Longrightarrow> lacks_test env opts t \<Longrightarrow>
   loadPackageFile env opts w =
     (Exited 1, w\<lparr>trace := trace w @ [EvRead ''package.json'', EvError ''No npm \"test\" script defined. You must define a \"test\" script in the \"scripts\" section of your package.json to use --doctor.'']\<rparr>)"
  by (auto simp: loadPackageFile_def lacks_test_def thn_def bnd_def attempt_def
      fs_readFile_def ret_def console_error_def emit_def process_exit_def
      split: option.splits sum.splits)

lemma doctor_load_Exited:
  "loadPackageFile env opts w = (Exited n, w') \<Longrightarrow> doctor env opts w = (Exited n, w')"
  by (simp add: doctor_def prepare_session_def bnd_def)

text \<open>
  When \<^verbatim>\<open>--packageData\<close> or \<^verbatim>\<open>--packageFile\<close> is given, or package.json is missing or does
  not parse, or no custom test command is configured and the test of line 58 finds no
  \<^verbatim>\<open>test\<close> script, the session ends with \<^verbatim>\<open>process.exit(1)\<close>. All it has done by then is read
  package.json (unless the options were refused first) and print one message on the error
  console: the files are unchanged, and no process was spawned.
\<close>

theorem doctor_refuses:
  assumes "truthy (packageData opts) \<or> truthy_str (packageFile opts) \<or>
           (case files w ''package.json'' of None \<Rightarrow> True
            | Some t \<Rightarrow> json_parse env t = None \<or> lacks_test env opts t)"
  shows "doctor env opts w =
     (Exited 1, w\<lparr>trace := trace w @
        (if truthy (packageData opts) \<or> truthy_str (packageFile opts) then [EvError ''--packageData and --packageFile are not allowed with --doctor. You must execute \"ncu --doctor\" in a directory with a package file so it can install dependencies and test them.'']
         else [EvRead ''package.json'',
               EvError (case files w ''package.json'' of
                          None \<Rightarrow> ''Missing or invalid package.json''
                        | Some t \<Rightarrow> if json_parse env t = None then ''Missing or invalid package.json''
                                    else ''No npm \"test\" script defined. You must define a \"test\" script in the \"scripts\" section of your package.json to use --doctor.'')])\<rparr>)"
proof (cases "truthy (packageData opts) \<or> truthy_str (packageFile opts)")
  case True
  then show ?thesis
    using loadPackageFile_args [of opts env w] by (simp add: doctor_load_Exited)
next
  case False
  then have noargs: "\<not> truthy (packageData opts)" "\<not> truthy_str (packageFile opts)" by simp_all
  show ?thesis
  proof (cases "files w ''package.json''")
    case None
    then show ?thesis
      using False loadPackageFile_missing [OF noargs, of w env] by (simp add: doctor_load_Exited)
  next
    case (Some t)
    show ?thesis
    proof (cases "json_parse env t = None")
      case True
      then show ?thesis
        using False Some loadPackageFile_missing [OF noargs, of w env] by (simp add: doctor_load_Exited)
    next
      case nonnull: False
      with assms False Some have "lacks_test env opts t" by simp
      then show ?thesis
        using False Some nonnull loadPackageFile_no_test [OF noargs Some, of env]
        by (auto simp: doctor_load_Exited)
    qed
  qed
qed




subsection \<open>The baseline phase\<close>

lemma loadPackageFile_Val:
  assumes "loadPackageFile env opts w = (Val (p, pf), w')"
  shows "files w ''package.json'' = Some pf \<and> json_parse env pf = Some p \<and>
         w' = w\<lparr>trace := trace w @ [EvRead ''package.json'']\<rparr>"
  using assms
  by (auto simp: loadPackageFile_def thn_def bnd_def attempt_def fs_readFile_def throw_def ret_def
      console_error_def emit_def process_exit_def
      split: if_splits option.splits sum.splits)

lemma obtain_upgrades_Some:
  assumes "obtain_upgrades env opts p pf deps lf w = (Val (Some s), w1)"
  shows "fst (runTests env opts True w) = Val ()"
    and "pkg s = p" "pkgFile s = pf" "allDependencies s = deps" "baseLockFile s = lf"
    and "upgrades s \<noteq> []"
proof -
  obtain wt where test: "runTests env opts True w = (Val (), wt)"
    using assms
    by (cases "runTests env opts True w")
       (auto simp: obtain_upgrades_def thn_def bnd_def try_catch_def console_error_def emit_def
          process_exit_def split: outcome.splits)
  then show "fst (runTests env opts True w) = Val ()" by simp
  obtain u where s: "s = \<lparr>pkg = p, pkgFile = pf, allDependencies = deps, baseLockFile = lf, upgrades = the u\<rparr>"
    and u: "length (case u of None \<Rightarrow> [] | Some kvs \<Rightarrow> kvs) \<noteq> 0"
    using assms test
    by (auto simp: obtain_upgrades_def thn_def bnd_def try_catch_def console_log_def emit_def ret_def
        split: prod.splits outcome.splits if_splits)
  from s show "pkg s = p" "pkgFile s = pf" "allDependencies s = deps" "baseLockFile s = lf"
    by simp_all
  from s u show "upgrades s \<noteq> []" by (cases u) auto
qed

lemma prepare_session_Some:
  assumes "prepare_session env opts w0 = (Val (Some s), w1)"
  shows "files w0 ''package.json'' = Some (pkgFile s)"
    and "json_parse env (pkgFile s) = Some (pkg s)"
    and "allDependencies_of (pkg s) = Inr (allDependencies s)"
    and "fst (runInstall env opts (baseline_world w0)) = Val ()"
    and "baseLockFile s = (case files (snapshot_world env opts w0) (lockFileName opts) of None \<Rightarrow> [] | Some c \<Rightarrow> c)"
    and "fst (runTests env opts True
           ((snapshot_world env opts w0)\<lparr>trace := trace (snapshot_world env opts w0) @ [EvRead (lockFileName opts)]\<rparr>)) = Val ()"
    and "upgrades s \<noteq> []"
proof -
  obtain p pf wl where load: "loadPackageFile env opts w0 = (Val (p, pf), wl)"
    using assms by (auto simp: prepare_session_def bnd_def split: prod.splits outcome.splits)
  note l = loadPackageFile_Val [OF load]
  obtain deps where deps: "allDependencies_of p = Inr deps"
    using assms load by (auto simp: prepare_session_def bnd_def throw_def split: sum.splits)
  have wl: "thn (console_log ''Running tests before upgrading'') f wl = f (baseline_world w0)"
    for f :: "session option m"
    using l by (simp add: thn_def bnd_def console_log_def emit_def baseline_world_def)
  have step1: "prepare_session env opts w0 =
      thn (runInstall env opts)
        (bnd (try_catch (fs_readFile env (lockFileName opts)) (\<lambda>e. ret []))
           (\<lambda>lf. obtain_upgrades env opts p pf deps lf)) (baseline_world w0)"
    by (simp add: prepare_session_def bnd_Val [where f = "loadPackageFile env opts", OF load] deps wl)
  obtain wi where inst: "runInstall env opts (baseline_world w0) = (Val (), wi)"
    using assms unfolding step1
    by (cases "runInstall env opts (baseline_world w0)") (auto simp: thn_def bnd_def split: outcome.splits)
  have wi: "wi = snapshot_world env opts w0" by (simp add: snapshot_world_def inst)
  define lf where "lf = (case files wi (lockFileName opts) of None \<Rightarrow> [] | Some c \<Rightarrow> c)"
  have rd: "try_catch (fs_readFile env (lockFileName opts)) (\<lambda>e. ret []) wi
            = (Val lf, wi\<lparr>trace := trace wi @ [EvRead (lockFileName opts)]\<rparr>)"
    by (simp add: try_catch_def fs_readFile_def ret_def lf_def split: option.splits)
  have step2: "prepare_session env opts w0 =
      obtain_upgrades env opts p pf deps lf (wi\<lparr>trace := trace wi @ [EvRead (lockFileName opts)]\<rparr>)"
    unfolding step1
    by (simp add: thn_Val [where f = "runInstall env opts", OF inst]
        bnd_Val [where f = "try_catch (fs_readFile env (lockFileName opts)) (\<lambda>e. ret [])", OF rd])
  note ou = obtain_upgrades_Some [OF assms [unfolded step2]]
  show "files w0 ''package.json'' = Some (pkgFile s)" using l ou by simp
  show "json_parse env (pkgFile s) = Some (pkg s)" using l ou by simp
  show "allDependencies_of (pkg s) = Inr (allDependencies s)" using deps ou by simp
  show "fst (runInstall env opts (baseline_world w0)) = Val ()" using inst by simp
  show "baseLockFile s = (case files (snapshot_world env opts w0) (lockFileName opts) of None \<Rightarrow> [] | Some c \<Rightarrow> c)"
    using ou by (simp add: lf_def wi)
  show "fst (runTests env opts True
           ((snapshot_world env opts w0)\<lparr>trace := trace (snapshot_world env opts w0) @ [EvRead (lockFileName opts)]\<rparr>)) = Val ()"
    using ou(1) by (simp add: wi)
  show "upgrades s \<noteq> []" using ou by simp
qed


lemmas sample_defs = sample_env_def sample_opts_def sample_world_def sample_spawn_def sample_parse_def sample_pkg_def

theorem doctor_refuses_witness:
  "doctor sample_env sample_opts (sample_world\<lparr>files := [''package.json'' \<mapsto> ''{}'']\<rparr>) =
     (Exited 1, \<lparr>files = [''package.json'' \<mapsto> ''{}''],
                 trace = [EvRead ''package.json'', EvError ''No npm \"test\" script defined. You must define a \"test\" script in the \"scripts\" section of your package.json to use --doctor.'']\<rparr>)"
  using doctor_refuses [where env = sample_env and opts = sample_opts
      and w = "sample_world\<lparr>files := [''package.json'' \<mapsto> ''{}'']\<rparr>"]
  by (simp add: sample_defs lacks_test_def)

subsection \<open>All upgrades pass\<close>

lemma no_write_filter:
  assumes "appends (\<lambda>e. \<not> is_write e) f" and "f w = (r, w')"
  shows "filter is_write (trace w') = filter is_write (trace w)"
proof -
  from appendsD [OF assms] obtain evs where "trace w' = trace w @ evs" "list_all (\<lambda>e. \<not> is_write e) evs"
    by blast
  then show ?thesis by (simp add: list_all_iff)
qed

lemma report_all_run:
  "report_all env s w = (Val (), w\<lparr>trace := trace w @
     [EvLog (chalk env Green check_mark @ '' Tests pass''),
      EvPrintUpgrades (allDependencies s) (upgrades s) (length (upgrades s)),
      EvLog ([CHR 0x0A] @ ''All dependencies upgraded and installed '' @ chalk env Green '':)'')]\<rparr>)"
  by (simp add: report_all_def thn_def bnd_def console_log_def emit_def)

lemma doctor_prepared:
  "prepare_session env opts w0 = (Val (Some s), w1) \<Longrightarrow> doctor env opts w0 = verify_all env opts s w1"
  by (simp add: doctor_def bnd_def)

text \<open>
  Claim C6. When the install with all upgrades and the tests after it both succeed, the
  session prints that the tests pass, reports the upgrades and returns normally. Nothing
  runs after the tests but the report, so there is no bisection step, the files are as the
  tests left them, and the session has added no write or removal of a file to the trace
  since it started.
\<close>

theorem doctor_all_pass:
  assumes prep: "prepare_session env opts w0 = (Val (Some s), w1)"
    and inst: "runInstall env opts w1 = (Val (), w2)"
    and test: "runTests env opts False w2 = (Val (), w3)"
  shows "doctor env opts w0 = (Val (), w3\<lparr>trace := trace w3 @
           [EvLog (chalk env Green check_mark @ '' Tests pass''),
            EvPrintUpgrades (allDependencies s) (upgrades s) (length (upgrades s)),
            EvLog ([CHR 0x0A] @ ''All dependencies upgraded and installed '' @ chalk env Green '':)'')]\<rparr>)
       \<and> filter is_write (trace (snd (doctor env opts w0))) = filter is_write (trace w0)"
proof -
  have run: "doctor env opts w0 = (Val (), w3\<lparr>trace := trace w3 @
           [EvLog (chalk env Green check_mark @ '' Tests pass''),
            EvPrintUpgrades (allDependencies s) (upgrades s) (length (upgrades s)),
            EvLog ([CHR 0x0A] @ ''All dependencies upgraded and installed '' @ chalk env Green '':)'')]\<rparr>)"
    by (simp add: doctor_prepared [OF prep] verify_all_def try_all_def bnd_def thn_def attempt_def
        inst test report_all_run ret_def)
  have nw: "\<not> is_write (EvLog t)" "\<not> is_write (EvSpawn p a)" "\<not> is_write (EvError t)" for t p a
    by simp_all
  have "filter is_write (trace w1) = filter is_write (trace w0)"
    by (rule no_write_filter [OF appends_prepare_session prep])
  moreover have "filter is_write (trace w2) = filter is_write (trace w1)"
    by (rule no_write_filter [OF appends_runInstall inst]) (rule nw)+
  moreover have "filter is_write (trace w3) = filter is_write (trace w2)"
    by (rule no_write_filter [OF appends_runTests test]) (rule nw)+
  ultimately show ?thesis by (simp add: run)
qed

lemma pair_fst_snd: "fst p = a \<Longrightarrow> p = (a, snd p)"
  by (cases p) simp

lemmas m_defs = ret_def throw_def process_exit_def bnd_def thn_def try_catch_def attempt_def emit_def
  console_log_def console_error_def fs_readFile_def fs_writeFile_def rimraf_sync_def spawn_def npm_def

lemmas d_defs = loadPackageFile_def lockFileName_def allDependencies_of_def runInstall_def runTests_def
  run_def obtain_upgrades_def prepare_session_def restore_baseline_def reinstall_def
  step_try_def step_catch_def bisect_step_def finish_def rollback_def bisect_and_finish_def recover_def
  report_all_def try_all_def verify_all_def doctor_def

lemmas run_defs = m_defs d_defs sample_defs sample_session_def Let_def

theorem doctor_all_pass_witness:
  "fst (doctor sample_env (sample_opts\<lparr>doctorTest := Some ''true''\<rparr>) sample_world) = Val ()
   \<and> filter is_write (trace (snd (doctor sample_env (sample_opts\<lparr>doctorTest := Some ''true''\<rparr>) sample_world))) = []"
proof -
  let ?o = "sample_opts\<lparr>doctorTest := Some ''true''\<rparr>"
  let ?w1 = "snd (prepare_session sample_env ?o sample_world)"
  let ?w2 = "snd (runInstall sample_env ?o ?w1)"
  let ?w3 = "snd (runTests sample_env ?o False ?w2)"
  have prep: "prepare_session sample_env ?o sample_world = (Val (Some sample_session), ?w1)"
    by (rule pair_fst_snd) (simp add: run_defs)
  have inst: "runInstall sample_env ?o ?w1 = (Val (), ?w2)"
    by (rule pair_fst_snd) (simp add: run_defs)
  have test: "runTests sample_env ?o False ?w2 = (Val (), ?w3)"
    by (rule pair_fst_snd) (simp add: run_defs)
  note res = doctor_all_pass [OF prep inst test]
  have "trace sample_world = []" by (simp add: sample_world_def)
  with res [THEN conjunct2] have "filter is_write (trace (snd (doctor sample_env ?o sample_world))) = []"
    by simp
  moreover from res [THEN conjunct1] have "fst (doctor sample_env ?o sample_world) = Val ()"
    by simp
  ultimately show ?thesis by simp
qed

subsection \<open>The batch fails\<close>

lemma try_all_Inl:
  assumes "try_all env opts s w1 = (Val (Inl ias), w2)"
  shows "ias = (fst (runInstall env opts w1) = Val ())"
proof (cases "runInstall env opts w1")
  case (Pair r wi)
  show ?thesis
  proof (cases r)
    case (Val u)
    with assms Pair show ?thesis
      by (cases "thn (runTests env opts False) (report_all env s) wi")
         (auto simp: try_all_def bnd_def attempt_def ret_def split: outcome.splits)
  next
    case (Thrown e)
    with assms Pair show ?thesis by (simp add: try_all_def bnd_def attempt_def ret_def)
  next
    case (Exited n)
    with assms Pair show ?thesis by (simp add: try_all_def bnd_def attempt_def ret_def)
  qed
qed

lemma doctor_failed:
  assumes "prepare_session env opts w0 = (Val (Some s), w1)"
    and "try_all env opts s w1 = (Val (Inl ias), w2)"
  shows "doctor env opts w0 = recover env opts s ias w2"
  using assms by (simp add: doctor_def verify_all_def bnd_def)

lemma restore_baseline_run:
  "restore_baseline env opts s ias w =
     (Val (), w\<lparr>files := (files w)(''package.json'' \<mapsto> pkgFile s,
                     lockFileName opts := (if baseLockFile s = [] then None else Some (baseLockFile s))),
                 trace := trace w @
                   [EvError (chalk env Red (if ias then ''Tests failed'' else ''Install failed'')),
                    EvLog ''Identifying broken dependencies'',
                    EvWrite ''package.json'' (pkgFile s),
                    if baseLockFile s = [] then EvRimraf (lockFileName opts)
                    else EvWrite (lockFileName opts) (baseLockFile s)]\<rparr>)"
  by (simp add: restore_baseline_def thn_def bnd_def console_error_def console_log_def emit_def
      fs_writeFile_def rimraf_sync_def)

text \<open>
  Claim C2. When the install or the tests of all upgrades fail, the session first writes
  the saved text of package.json back and puts the lock file back as it was saved (the
  saved bytes, or no lock file when nothing was saved). \<^verbatim>\<open>installAllSuccess\<close> tells whether
  the install of all upgrades had succeeded. If it had not, the loop over the upgrades
  starts in the restored world, with no install in between; if it had, the install runs
  in the restored world and the loop starts in the world this install leaves.
\<close>

theorem doctor_rollback:
  assumes prep: "prepare_session env opts w0 = (Val (Some s), w1)"
    and fail: "try_all env opts s w1 = (Val (Inl ias), w2)"
  shows "let wr = w2\<lparr>files := (files w2)(''package.json'' \<mapsto> pkgFile s,
                          lockFileName opts := (if baseLockFile s = [] then None else Some (baseLockFile s))),
                      trace := trace w2 @
                        [EvError (chalk env Red (if ias then ''Tests failed'' else ''Install failed'')),
                         EvLog ''Identifying broken dependencies'',
                         EvWrite ''package.json'' (pkgFile s),
                         if baseLockFile s = [] then EvRimraf (lockFileName opts)
                         else EvWrite (lockFileName opts) (baseLockFile s)]\<rparr>
         in ias = (fst (runInstall env opts w1) = Val ()) \<and>
            restore_baseline env opts s ias w2 = (Val (), wr) \<and>
            (\<not> ias \<longrightarrow> doctor env opts w0 = bisect_and_finish env opts s wr) \<and>
            (\<forall>wi. ias \<and> runInstall env opts wr = (Val (), wi) \<longrightarrow>
                  doctor env opts w0 = bisect_and_finish env opts s wi)"
  unfolding Let_def
proof (intro conjI allI impI)
  show "ias = (fst (runInstall env opts w1) = Val ())" by (rule try_all_Inl [OF fail])
  show "restore_baseline env opts s ias w2 = (Val (), w2\<lparr>files := (files w2)(''package.json'' \<mapsto> pkgFile s,
                          lockFileName opts := (if baseLockFile s = [] then None else Some (baseLockFile s))),
                      trace := trace w2 @
                        [EvError (chalk env Red (if ias then ''Tests failed'' else ''Install failed'')),
                         EvLog ''Identifying broken dependencies'',
                         EvWrite ''package.json'' (pkgFile s),
                         if baseLockFile s = [] then EvRimraf (lockFileName opts)
                         else EvWrite (lockFileName opts) (baseLockFile s)]\<rparr>)"
    by (rule restore_baseline_run)
next
  assume "\<not> ias"
  then show "doctor env opts w0 = bisect_and_finish env opts s (w2\<lparr>files := (files w2)(''package.json'' \<mapsto> pkgFile s,
                          lockFileName opts := (if baseLockFile s = [] then None else Some (baseLockFile s))),
                      trace := trace w2 @
                        [EvError (chalk env Red (if ias then ''Tests failed'' else ''Install failed'')),
                         EvLog ''Identifying broken dependencies'',
                         EvWrite ''package.json'' (pkgFile s),
                         if baseLockFile s = [] then EvRimraf (lockFileName opts)
                         else EvWrite (lockFileName opts) (baseLockFile s)]\<rparr>)"
    by (simp add: doctor_failed [OF prep fail] recover_def rollback_def reinstall_def
        thn_def bnd_def restore_baseline_run ret_def)
next
  fix wi
  assume a: "ias \<and> runInstall env opts (w2\<lparr>files := (files w2)(''package.json'' \<mapsto> pkgFile s,
                          lockFileName opts := (if baseLockFile s = [] then None else Some (baseLockFile s))),
                      trace := trace w2 @
                        [EvError (chalk env Red (if ias then ''Tests failed'' else ''Install failed'')),
                         EvLog ''Identifying broken dependencies'',
                         EvWrite ''package.json'' (pkgFile s),
                         if baseLockFile s = [] then EvRimraf (lockFileName opts)
                         else EvWrite (lockFileName opts) (baseLockFile s)]\<rparr>) = (Val (), wi)"
  then have ias: ias by simp
  from a show "doctor env opts w0 = bisect_and_finish env opts s wi"
    by (simp add: doctor_failed [OF prep fail] recover_def rollback_def reinstall_def ias
        thn_def bnd_def restore_baseline_run try_catch_def)
qed

theorem doctor_rollback_witness:
  "fst (try_all sample_env sample_opts sample_session
          (snd (prepare_session sample_env sample_opts sample_world))) = Val (Inl True)
   \<and> map (files (snd (restore_baseline sample_env sample_opts sample_session True
          (snd (try_all sample_env sample_opts sample_session
             (snd (prepare_session sample_env sample_opts sample_world)))))))
        [''package.json'', ''package-lock.json''] = [Some ''P0'', Some ''L'']"
proof -
  let ?w1 = "snd (prepare_session sample_env sample_opts sample_world)"
  let ?w2 = "snd (try_all sample_env sample_opts sample_session ?w1)"
  have prep: "prepare_session sample_env sample_opts sample_world = (Val (Some sample_session), ?w1)"
    by (rule pair_fst_snd) (simp add: run_defs)
  have fail: "try_all sample_env sample_opts sample_session ?w1 = (Val (Inl True), ?w2)"
    by (rule pair_fst_snd) (simp add: run_defs)
  note res = doctor_rollback [OF prep fail, unfolded Let_def]
  from res [THEN conjunct2, THEN conjunct1]
  have "map (files (snd (restore_baseline sample_env sample_opts sample_session True ?w2)))
          [''package.json'', ''package-lock.json''] = [Some ''P0'', Some ''L'']"
    by (simp add: sample_session_def sample_opts_def lockFileName_def)
  moreover from arg_cong [OF fail, of fst]
  have "fst (try_all sample_env sample_opts sample_session ?w1) = Val (Inl True)"
    by simp
  ultimately show ?thesis by simp
qed

text \<open>
  When the install that follows the restoration of package.json and the lock file fails,
  the session ends there by throwing an \<^verbatim>\<open>Error\<close>: the final world is the one the failed
  install left, so no upgrade was tried on its own. The message names the install of the
  package manager (of npm when none is set), whatever command \<^verbatim>\<open>runInstall\<close> ran, and
  points at a partial install or the connection. It is thrown, not printed like the
  report of the failed tests, which is already on the error console.
\<close>

theorem doctor_reinstall_fatal:
  assumes prep: "prepare_session env opts w0 = (Val (Some s), w1)"
    and fail: "try_all env opts s w1 = (Val (Inl True), w2)"
    and rest: "restore_baseline env opts s True w2 = (Val (), w3)"
    and inst: "runInstall env opts w3 = (Thrown e, w4)"
  shows "doctor env opts w0 =
           (Thrown (Error (''Error: Doctor mode was about to test individual upgrades, but '' @
              chalk env Cyan ((if truthy_str (packageManager opts) then the (packageManager opts) else ''npm'')
                              @ '' install'') @
              '' failed after rolling back to your existing package and lock files. This is unexpected since the initial install before any upgrades succeeded. Either npm failed to revert a partial install, or failed anomalously on the second run. Please check your internet connection and retry. If doctor mode fails consistently, report a bug with your complete list of dependency versions at https://github.com/raineorshine/npm-check-updates/issues.'')), w4)
       \<and> EvError (chalk env Red ''Tests failed'') \<in> set (trace w4)"
proof -
  have "doctor env opts w0 =
           (Thrown (Error (''Error: Doctor mode was about to test individual upgrades, but '' @
              chalk env Cyan ((if truthy_str (packageManager opts) then the (packageManager opts) else ''npm'')
                              @ '' install'') @
              '' failed after rolling back to your existing package and lock files. This is unexpected since the initial install before any upgrades succeeded. Either npm failed to revert a partial install, or failed anomalously on the second run. Please check your internet connection and retry. If doctor mode fails consistently, report a bug with your complete list of dependency versions at https://github.com/raineorshine/npm-check-updates/issues.'')), w4)"
    by (simp add: doctor_failed [OF prep fail] recover_def rollback_def reinstall_def
        thn_def bnd_def rest inst try_catch_def throw_def Let_def)
  moreover have "EvError (chalk env Red ''Tests failed'') \<in> set (trace w3)"
    using rest by (auto simp: restore_baseline_run)
  moreover obtain evs where "trace w4 = trace w3 @ evs"
    using appendsD [OF appends_runInstall [where P = "\<lambda>e. True"] inst] by auto
  ultimately show ?thesis by simp
qed

theorem doctor_reinstall_fatal_witness:
  "fst (doctor flaky_env sample_opts sample_world) =
     Thrown (Error ''Error: Doctor mode was about to test individual upgrades, but npm install failed after rolling back to your existing package and lock files. This is unexpected since the initial install before any upgrades succeeded. Either npm failed to revert a partial install, or failed anomalously on the second run. Please check your internet connection and retry. If doctor mode fails consistently, report a bug with your complete list of dependency versions at https://github.com/raineorshine/npm-check-updates/issues.'')"
proof -
  let ?w1 = "snd (prepare_session flaky_env sample_opts sample_world)"
  let ?w2 = "snd (try_all flaky_env sample_opts sample_session ?w1)"
  let ?w3 = "snd (restore_baseline flaky_env sample_opts sample_session True ?w2)"
  let ?w4 = "snd (runInstall flaky_env sample_opts ?w3)"
  have prep: "prepare_session flaky_env sample_opts sample_world = (Val (Some sample_session), ?w1)"
    by (rule pair_fst_snd) (simp add: run_defs flaky_env_def)
  have fail: "try_all flaky_env sample_opts sample_session ?w1 = (Val (Inl True), ?w2)"
    by (rule pair_fst_snd) (simp add: run_defs flaky_env_def)
  have rest: "restore_baseline flaky_env sample_opts sample_session True ?w2 = (Val (), ?w3)"
    by (rule pair_fst_snd) (simp add: restore_baseline_run)
  have inst: "runInstall flaky_env sample_opts ?w3 = (Thrown (Rejected ''ECONNRESET''), ?w4)"
    by (rule pair_fst_snd) (simp add: run_defs flaky_env_def)
  from doctor_reinstall_fatal [OF prep fail rest inst, THEN conjunct1] show ?thesis
    by (simp add: flaky_env_def sample_env_def sample_opts_def)
qed

text \<open>
  Claim C3, on the sample project installed by \<open>make deps\<close>. The tests of all upgrades fail,
  the session restores package.json and the lock file, and the install it then runs, the
  last process of the session, is \<open>make deps\<close>, which fails. The session ends by throwing
  the error, with no upgrade tried on its own; the message says that \<open>npm install\<close> failed,
  a command the session never ran.
\<close>

theorem doctor_reinstall_names_npm:
  "fst (doctor make_env make_opts sample_world) =
     Thrown (Error ''Error: Doctor mode was about to test individual upgrades, but npm install failed after rolling back to your existing package and lock files. This is unexpected since the initial install before any upgrades succeeded. Either npm failed to revert a partial install, or failed anomalously on the second run. Please check your internet connection and retry. If doctor mode fails consistently, report a bug with your complete list of dependency versions at https://github.com/raineorshine/npm-check-updates/issues.'')
   \<and> last (trace (snd (doctor make_env make_opts sample_world))) = EvSpawn (Command ''make'') [''deps'']
   \<and> \<not> list_ex (\<lambda>e. e = EvSpawn Npm [''install'']) (trace (snd (doctor make_env make_opts sample_world)))"
  by (simp add: run_defs make_env_def make_opts_def)

subsection \<open>The snapshots\<close>

text \<open>
  Claim C10. When there was no lock file at the moment the session saved it (after the
  baseline install), the saved text is empty, and the restoration after a failed batch
  removes the lock file instead of writing it: right after the restoration there is no
  lock file, whatever the install of all upgrades had created.
\<close>

theorem rollback_without_lock_file:
  assumes prep: "prepare_session env opts w0 = (Val (Some s), w1)"
    and nolock: "files (snapshot_world env opts w0) (lockFileName opts) = None"
    and fail: "try_all env opts s w1 = (Val (Inl ias), w2)"
  shows "let wr = w2\<lparr>files := (files w2)(''package.json'' \<mapsto> pkgFile s, lockFileName opts := None),
                      trace := trace w2 @
                        [EvError (chalk env Red (if ias then ''Tests failed'' else ''Install failed'')),
                         EvLog ''Identifying broken dependencies'',
                         EvWrite ''package.json'' (pkgFile s),
                         EvRimraf (lockFileName opts)]\<rparr>
         in baseLockFile s = [] \<and>
            restore_baseline env opts s ias w2 = (Val (), wr) \<and>
            doctor env opts w0 = thn (reinstall env opts ias) (bisect_and_finish env opts s) wr"
proof -
  have empty: "baseLockFile s = []"
    using prepare_session_Some(5) [OF prep] nolock by simp
  then show ?thesis
    by (simp add: doctor_failed [OF prep fail] recover_def rollback_def restore_baseline_run
        thn_def bnd_def)
qed

theorem rollback_without_lock_file_witness:
  "files (snapshot_world sample_env bare_opts bare_world) ''package-lock.json'' = None
   \<and> files (snd (try_all sample_env bare_opts (sample_session\<lparr>baseLockFile := []\<rparr>)
             (snd (prepare_session sample_env bare_opts bare_world)))) ''package-lock.json'' = Some ''L''
   \<and> files (snd (restore_baseline sample_env bare_opts (sample_session\<lparr>baseLockFile := []\<rparr>) True
          (snd (try_all sample_env bare_opts (sample_session\<lparr>baseLockFile := []\<rparr>)
             (snd (prepare_session sample_env bare_opts bare_world)))))) ''package-lock.json'' = None"
proof -
  let ?s = "sample_session\<lparr>baseLockFile := []\<rparr>"
  let ?w1 = "snd (prepare_session sample_env bare_opts bare_world)"
  let ?w2 = "snd (try_all sample_env bare_opts ?s ?w1)"
  have prep: "prepare_session sample_env bare_opts bare_world = (Val (Some ?s), ?w1)"
    by (rule pair_fst_snd) (simp add: run_defs bare_opts_def bare_world_def)
  have nolock: "files (snapshot_world sample_env bare_opts bare_world) (lockFileName bare_opts) = None"
    by (simp add: snapshot_world_def baseline_world_def run_defs bare_opts_def bare_world_def)
  have fail: "try_all sample_env bare_opts ?s ?w1 = (Val (Inl True), ?w2)"
    by (rule pair_fst_snd) (simp add: run_defs bare_opts_def bare_world_def)
  have before: "files ?w2 ''package-lock.json'' = Some ''L''"
    by (simp add: run_defs bare_opts_def bare_world_def)
  note res = rollback_without_lock_file [OF prep nolock fail, unfolded Let_def]
  from res [THEN conjunct2, THEN conjunct1]
  have "files (snd (restore_baseline sample_env bare_opts ?s True ?w2)) ''package-lock.json'' = None"
    by (simp add: lockFileName_def bare_opts_def sample_opts_def)
  moreover from nolock
  have "files (snapshot_world sample_env bare_opts bare_world) ''package-lock.json'' = None"
    by (simp add: lockFileName_def bare_opts_def sample_opts_def)
  ultimately show ?thesis using before by simp
qed

text \<open>
  Claim C8, as amended. The text of package.json that is written back later is the one
  the initial world holds, read before the baseline install starts. The lock file is
  saved after the baseline install: the saved text is what the world left by that
  install holds (empty when it holds no lock file). The baseline test runs next, after
  the read of the lock file.
\<close>

theorem baseline_order:
  assumes prep: "prepare_session env opts w0 = (Val (Some s), w1)"
  shows "files w0 ''package.json'' = Some (pkgFile s)
       \<and> files (baseline_world w0) = files w0
       \<and> fst (runInstall env opts (baseline_world w0)) = Val ()
       \<and> baseLockFile s = (case files (snapshot_world env opts w0) (lockFileName opts) of
                              None \<Rightarrow> [] | Some c \<Rightarrow> c)
       \<and> fst (runTests env opts True
               ((snapshot_world env opts w0)\<lparr>trace := trace (snapshot_world env opts w0) @
                  [EvRead (lockFileName opts)]\<rparr>)) = Val ()"
  using prepare_session_Some [OF prep] by (simp add: baseline_world_def)

theorem baseline_order_witness:
  "files sample_world ''package.json'' = Some ''P0''
   \<and> files (snapshot_world sample_env sample_opts sample_world) ''package-lock.json'' = Some ''L''
   \<and> baseLockFile sample_session = ''L''"
proof -
  let ?w1 = "snd (prepare_session sample_env sample_opts sample_world)"
  have prep: "prepare_session sample_env sample_opts sample_world = (Val (Some sample_session), ?w1)"
    by (rule pair_fst_snd) (simp add: run_defs)
  have "files (snapshot_world sample_env sample_opts sample_world) ''package-lock.json'' = Some ''L''"
    by (simp add: snapshot_world_def baseline_world_def run_defs)
  moreover from baseline_order [OF prep, THEN conjunct1]
  have "files sample_world ''package.json'' = Some ''P0''"
    by (simp add: sample_session_def)
  ultimately show ?thesis by (simp add: sample_session_def)
qed

text \<open>
  Claim C8 as stated fails on the sample project: the lock file holds \<open>L0\<close> when the
  session starts, the baseline install rewrites it to \<open>L\<close>, and \<open>L\<close> is what the session
  saves; the install is spawned before the lock file is read.
\<close>

theorem baseline_order_counterexample:
  "fst (prepare_session sample_env sample_opts sample_world) = Val (Some sample_session)
   \<and> files sample_world (lockFileName sample_opts) = Some ''L0''
   \<and> baseLockFile sample_session = ''L''
   \<and> take 5 (trace (snd (prepare_session sample_env sample_opts sample_world))) =
       [EvRead ''package.json'', EvLog ''Running tests before upgrading'', EvLog ''npm install'',
        EvSpawn Npm [''install''], EvRead ''package-lock.json'']"
  by (simp add: run_defs)

subsection \<open>One iteration of the loop\<close>

lemma step_catch_run:
  "step_catch env opts s name version e st w =
     (Val st, w\<lparr>files := (if packageManager opts = Some ''yarn''
                            then (files w)(lockFileName opts \<mapsto> snd st, ''package.json'' \<mapsto> fst st)
                            else (files w)(lockFileName opts \<mapsto> snd st)),
                  trace := trace w @
                    [EvError (''  '' @ chalk env Red cross_mark @ '' '' @ name @ '' '' @
                              to_string env (map_of (allDependencies s) name) @ '' '' @ arrow @ '' '' @
                              version @ [CHR 0x0A]),
                     EvError (chalk env Red (exn_string e)),
                     EvWrite (lockFileName opts) (snd st)] @
                    (if packageManager opts = Some ''yarn'' then [EvWrite ''package.json'' (fst st)] else [])\<rparr>)"
  by (simp add: step_catch_def thn_def bnd_def ret_def console_error_def emit_def fs_writeFile_def)

lemma bisect_step_Thrown:
  assumes "step_try env opts s (fst d) (snd d) w = (Thrown e, w1)"
  shows "bisect_step env opts s d st w = step_catch env opts s (fst d) (snd d) e st w1"
  using assms by (simp add: bisect_step_def bnd_def attempt_def)

lemma bisect_step_Val:
  assumes "step_try env opts s (fst d) (snd d) w = (Val (), w1)"
    and "files w1 (lockFileName opts) = Some l"
  shows "bisect_step env opts s d st w =
     (Val (upgradePackageData env (fst st) [(fst d, map_of (allDependencies s) (fst d))] [d], l),
      w1\<lparr>trace := trace w1 @ [EvRead (lockFileName opts)]\<rparr>)"
  using assms by (simp add: bisect_step_def bnd_def attempt_def fs_readFile_def ret_def Let_def)

text \<open>
  Claim C4. When the \<^verbatim>\<open>try\<close> block of an iteration throws (the single install, the prepare
  script or the tests failed), the iteration prints the failure, writes the last saved
  lock file back, writes the last good package.json back exactly when the package manager
  is yarn, and returns the pair of saved texts unchanged; the loop goes on with the next
  upgrade from there.
\<close>

theorem bisect_step_failure:
  assumes "step_try env opts s (fst d) (snd d) w = (Thrown e, w1)"
  shows "let w' = w1\<lparr>files := (if packageManager opts = Some ''yarn''
                            then (files w1)(lockFileName opts \<mapsto> snd st, ''package.json'' \<mapsto> fst st)
                            else (files w1)(lockFileName opts \<mapsto> snd st)),
                  trace := trace w1 @
                    [EvError (''  '' @ chalk env Red cross_mark @ '' '' @ fst d @ '' '' @
                              to_string env (map_of (allDependencies s) (fst d)) @ '' '' @ arrow @ '' '' @
                              snd d @ [CHR 0x0A]),
                     EvError (chalk env Red (exn_string e)),
                     EvWrite (lockFileName opts) (snd st)] @
                    (if packageManager opts = Some ''yarn'' then [EvWrite ''package.json'' (fst st)] else [])\<rparr>
         in bisect_step env opts s d st w = (Val st, w') \<and>
            bisect env opts s (d # rest) st w = bisect env opts s rest st w'"
  by (simp add: Let_def bisect_step_Thrown [OF assms] step_catch_run bnd_def)

lemma npm_run:
  "npm env args pm True w =
     spawn env (if pm = Some ''yarn'' then Yarn else Npm) args False
       (w\<lparr>trace := trace w @ [EvLog (chalk env Blue (join_space ((case pm of None \<Rightarrow> [] | Some t \<Rightarrow> t) # args)))]\<rparr>)"
  by (simp add: npm_def thn_def bnd_def console_log_def emit_def)

lemma spawn_trace:
  "\<exists>evs. trace (snd (spawn env p args cb w)) = trace w @ [EvSpawn p args] @ evs"
  by (simp add: spawn_def Let_def split: option.splits)

lemma appends_any_npm: "appends (\<lambda>e. True) (npm env args pm print)"
  by (rule appends_npm) simp_all

lemma appends_any_runTests: "appends (\<lambda>e. True) (runTests env opts cb)"
  by (rule appends_runTests) simp_all

lemma appends_any_step_catch: "appends (\<lambda>e. True) (step_catch env opts s name version e st)"
  unfolding step_catch_def by (intro appends_intros appends_if) simp_all

lemma npm_trace:
  "\<exists>evs. trace (snd (npm env args pm True w)) = trace w @
     [EvLog (chalk env Blue (join_space ((case pm of None \<Rightarrow> [] | Some t \<Rightarrow> t) # args))),
      EvSpawn (if pm = Some ''yarn'' then Yarn else Npm) args] @ evs"
proof -
  let ?w = "w\<lparr>trace := trace w @ [EvLog (chalk env Blue (join_space ((case pm of None \<Rightarrow> [] | Some t \<Rightarrow> t) # args)))]\<rparr>"
  from spawn_trace [of env "if pm = Some ''yarn'' then Yarn else Npm" args False ?w]
  show ?thesis by (simp add: npm_run)
qed

lemma bisect_step_after_install:
  "\<exists>evs. trace (snd (bisect_step env opts s d st w)) =
     trace (snd (npm env ((if packageManager opts = Some ''yarn'' then [''add''] else [''install'', ''--no-save''])
                           @ [fst d @ ''@'' @ snd d]) (packageManager opts) True w)) @ evs"
proof -
  define inst where "inst = npm env ((if packageManager opts = Some ''yarn'' then [''add''] else [''install'', ''--no-save''])
                           @ [fst d @ ''@'' @ snd d]) (packageManager opts) True"
  define rest where "rest =
     thn (case get_prop (pkg s) ''scripts'' of
            Inl e \<Rightarrow> throw e
          | Inr scripts \<Rightarrow>
              if truthy (opt_prop scripts ''prepare'')
              then try_catch (npm env [''run'', ''prepare''] (packageManager opts) True)
                     (\<lambda>e. thn (console_error (chalk env Red ''Prepare script failed'')) (throw e))
              else ret ())
    (thn (runTests env opts False)
         (console_log (''  '' @ chalk env Green check_mark @ '' '' @ fst d @ '' '' @
                       to_string env (map_of (allDependencies s) (fst d)) @ '' '' @ arrow @ '' '' @ snd d)))"
  define K where "K = (\<lambda>r :: exn + unit. case r of
         Inl e \<Rightarrow> step_catch env opts s (fst d) (snd d) e st
       | Inr _ \<Rightarrow>
           let lastPkgFile = upgradePackageData env (fst st)
                               [(fst d, map_of (allDependencies s) (fst d))] [d]
           in bnd (attempt (fs_readFile env (lockFileName opts))) (\<lambda>r2. case r2 of
                  Inl e \<Rightarrow> step_catch env opts s (fst d) (snd d) e (lastPkgFile, snd st)
                | Inr lf \<Rightarrow> ret (lastPkgFile, lf)))"
  have unfold: "bisect_step env opts s d st = bnd (attempt (thn inst rest)) K"
    unfolding bisect_step_def step_try_def rest_def K_def inst_def ..
  have a_rest: "appends (\<lambda>e. True) rest"
    unfolding rest_def
    by (auto intro!: appends_intros appends_any_npm appends_any_runTests split: sum.splits)
  have a_K: "appends (\<lambda>e. True) (K r)" for r
    unfolding K_def Let_def
    by (auto intro!: appends_intros appends_any_step_catch split: sum.splits)
  obtain r w1 where run: "inst w = (r, w1)"
    by (cases "inst w")
  have "\<exists>evs. trace (snd (bnd (attempt (thn inst rest)) K w)) = trace w1 @ evs"
  proof (cases r)
    case (Val u)
    then have "bnd (attempt (thn inst rest)) K w = bnd (attempt rest) K w1"
      using run by (simp add: bnd_def attempt_def thn_def)
    moreover have "appends (\<lambda>e. True) (bnd (attempt rest) K)"
      by (intro appends_intros a_rest a_K)
    ultimately show ?thesis by (auto simp: appends_def)
  next
    case (Thrown e)
    then have "bnd (attempt (thn inst rest)) K w = K (Inl e) w1"
      using run by (simp add: bnd_def attempt_def thn_def)
    with a_K [of "Inl e"] show ?thesis by (auto simp: appends_def)
  next
    case (Exited n)
    then show ?thesis using run by (simp add: bnd_def attempt_def thn_def)
  qed
  then show ?thesis
    unfolding unfold using run by (simp add: inst_def)
qed

text \<open>
  Claim C7. An iteration starts by spawning the single install: \<^verbatim>\<open>install --no-save\<close> with
  npm, \<^verbatim>\<open>add\<close> with yarn, for \<open>name@version\<close>. When package.json has a truthy
  \<^verbatim>\<open>scripts.prepare\<close> and the single install succeeds, \<^verbatim>\<open>run prepare\<close> is spawned in the world
  the install left. If it succeeds, the tests run in the world it leaves. If it fails, the
  failure is printed and the handler of the iteration runs on the unchanged pair of saved
  texts: the iteration returns normally with the upgrade rejected.
\<close>

theorem bisect_step_install_prepare:
  "let pm = packageManager opts;
       args = (if pm = Some ''yarn'' then [''add''] else [''install'', ''--no-save'']) @ [name @ ''@'' @ version]
   in (\<exists>evs. trace (snd (bisect_step env opts s (name, version) st w)) = trace w @
          [EvLog (chalk env Blue (join_space ((case pm of None \<Rightarrow> [] | Some t \<Rightarrow> t) # args))),
           EvSpawn (if pm = Some ''yarn'' then Yarn else Npm) args] @ evs)
    \<and> (\<forall>sc w1 w2 e.
          get_prop (pkg s) ''scripts'' = Inr sc \<and> truthy (opt_prop sc ''prepare'') \<and>
          npm env args pm True w = (Val (), w1) \<longrightarrow>
            (npm env [''run'', ''prepare''] pm True w1 = (Val (), w2) \<longrightarrow>
               step_try env opts s name version w =
                 thn (runTests env opts False)
                     (console_log (''  '' @ chalk env Green check_mark @ '' '' @ name @ '' '' @
                        to_string env (map_of (allDependencies s) name) @ '' '' @ arrow @ '' '' @ version)) w2)
          \<and> (npm env [''run'', ''prepare''] pm True w1 = (Thrown e, w2) \<longrightarrow>
               bisect_step env opts s (name, version) st w =
                 step_catch env opts s name version e st
                   (w2\<lparr>trace := trace w2 @ [EvError (chalk env Red ''Prepare script failed'')]\<rparr>)
               \<and> fst (bisect_step env opts s (name, version) st w) = Val st))"
proof -
  define pm where "pm = packageManager opts"
  define args where "args = (if pm = Some ''yarn'' then [''add''] else [''install'', ''--no-save'']) @ [name @ ''@'' @ version]"
  have first: "\<exists>evs. trace (snd (bisect_step env opts s (name, version) st w)) = trace w @
          [EvLog (chalk env Blue (join_space ((case pm of None \<Rightarrow> [] | Some t \<Rightarrow> t) # args))),
           EvSpawn (if pm = Some ''yarn'' then Yarn else Npm) args] @ evs"
  proof -
    from bisect_step_after_install [of env opts s "(name, version)" st w]
    obtain evs where 1: "trace (snd (bisect_step env opts s (name, version) st w)) =
        trace (snd (npm env args pm True w)) @ evs"
      by (auto simp: args_def pm_def)
    from npm_trace [of env args pm w] obtain evs' where 2: "trace (snd (npm env args pm True w)) = trace w @
       [EvLog (chalk env Blue (join_space ((case pm of None \<Rightarrow> [] | Some t \<Rightarrow> t) # args))),
        EvSpawn (if pm = Some ''yarn'' then Yarn else Npm) args] @ evs'"
      by blast
    show ?thesis unfolding 1 2 by simp
  qed
  have second: "step_try env opts s name version w =
                 thn (runTests env opts False)
                     (console_log (''  '' @ chalk env Green check_mark @ '' '' @ name @ '' '' @
                        to_string env (map_of (allDependencies s) name) @ '' '' @ arrow @ '' '' @ version)) w2"
    if "get_prop (pkg s) ''scripts'' = Inr sc" "truthy (opt_prop sc ''prepare'')"
      "npm env args pm True w = (Val (), w1)" "npm env [''run'', ''prepare''] pm True w1 = (Val (), w2)"
    for sc w1 w2
    using that unfolding step_try_def args_def pm_def
    by (simp add: thn_def bnd_def try_catch_def)
  have third: "bisect_step env opts s (name, version) st w =
                 step_catch env opts s name version e st
                   (w2\<lparr>trace := trace w2 @ [EvError (chalk env Red ''Prepare script failed'')]\<rparr>)"
    if "get_prop (pkg s) ''scripts'' = Inr sc" "truthy (opt_prop sc ''prepare'')"
      "npm env args pm True w = (Val (), w1)" "npm env [''run'', ''prepare''] pm True w1 = (Thrown e, w2)"
    for sc w1 w2 e
  proof -
    have "step_try env opts s name version w =
        (Thrown e, w2\<lparr>trace := trace w2 @ [EvError (chalk env Red ''Prepare script failed'')]\<rparr>)"
      using that unfolding step_try_def args_def pm_def
      by (simp add: thn_def bnd_def try_catch_def console_error_def emit_def throw_def)
    then show ?thesis
      using bisect_step_Thrown [of env opts s "(name, version)" w e _ st] by simp
  qed
  show ?thesis
    unfolding Let_def pm_def [symmetric] args_def [symmetric]
    using first second third by (auto simp: step_catch_run)
qed

theorem bisect_step_failure_witness:
  "fst (bisect_step sample_env sample_opts sample_session (''b'', ''2'') (''P0'', ''L'') sample_world)
     = Val (''P0'', ''L'')
   \<and> files (snd (bisect_step sample_env sample_opts sample_session (''b'', ''2'') (''P0'', ''L'') sample_world))
        ''package-lock.json'' = Some ''L''"
proof -
  let ?w1 = "snd (step_try sample_env sample_opts sample_session ''b'' ''2'' sample_world)"
  have "step_try sample_env sample_opts sample_session ''b'' ''2'' sample_world = (Thrown (Rejected ''failed''), ?w1)"
    by (rule pair_fst_snd) (simp add: run_defs)
  then have throws: "step_try sample_env sample_opts sample_session (fst (''b'', ''2'')) (snd (''b'', ''2'')) sample_world
      = (Thrown (Rejected ''failed''), ?w1)"
    by simp
  from bisect_step_failure [OF throws, of "(''P0'', ''L'')" "[]", unfolded Let_def, THEN conjunct1]
  show ?thesis
    by (simp add: lockFileName_def sample_opts_def)
qed

theorem bisect_step_install_prepare_witness:
  "take 2 (trace (snd (bisect_step broken_prepare_env sample_opts sample_session (''a'', ''2'') (''P0'', ''L'') sample_world)))
     = [EvLog ''npm install --no-save a@2'', EvSpawn Npm [''install'', ''--no-save'', ''a@2'']]
   \<and> fst (bisect_step broken_prepare_env sample_opts sample_session (''a'', ''2'') (''P0'', ''L'') sample_world)
     = Val (''P0'', ''L'')"
proof -
  let ?args = "[''install'', ''--no-save'', ''a@2'']"
  let ?w1 = "snd (npm broken_prepare_env ?args (Some ''npm'') True sample_world)"
  let ?w2 = "snd (npm broken_prepare_env [''run'', ''prepare''] (Some ''npm'') True ?w1)"
  note res = bisect_step_install_prepare [where env = broken_prepare_env and opts = sample_opts
      and s = sample_session and name = "''a''" and version = "''2''" and st = "(''P0'', ''L'')"
      and w = sample_world, unfolded Let_def]
  have pm: "packageManager sample_opts = Some ''npm''" by (simp add: sample_opts_def)
  have scripts: "get_prop (pkg sample_session) ''scripts'' =
      Inr (Some (JObj [(''test'', JStr ''mocha''), (''prepare'', JStr ''husky'')]))"
    by (simp add: sample_session_def sample_pkg_def)
  have prepare: "truthy (opt_prop (Some (JObj [(''test'', JStr ''mocha''), (''prepare'', JStr ''husky'')])) ''prepare'')"
    by simp
  have "npm broken_prepare_env ?args (Some ''npm'') True sample_world = (Val (), ?w1)"
    by (rule pair_fst_snd) (simp add: run_defs broken_prepare_env_def)
  then have inst: "npm broken_prepare_env ((if packageManager sample_opts = Some ''yarn'' then [''add'']
        else [''install'', ''--no-save'']) @ [''a'' @ ''@'' @ ''2'']) (packageManager sample_opts) True sample_world
      = (Val (), ?w1)"
    by (simp add: pm)
  have prep: "npm broken_prepare_env [''run'', ''prepare''] (packageManager sample_opts) True ?w1
      = (Thrown (Rejected ''husky: not found''), ?w2)"
    unfolding pm by (rule pair_fst_snd) (simp add: run_defs broken_prepare_env_def)
  from res [THEN conjunct2, rule_format, OF conjI [OF scripts conjI [OF prepare inst]], THEN conjunct2,
      rule_format, OF prep, THEN conjunct2]
  have rejected: "fst (bisect_step broken_prepare_env sample_opts sample_session (''a'', ''2'') (''P0'', ''L'') sample_world)
     = Val (''P0'', ''L'')" .
  from res [THEN conjunct1] obtain evs where
    "trace (snd (bisect_step broken_prepare_env sample_opts sample_session (''a'', ''2'') (''P0'', ''L'') sample_world))
      = [EvLog ''npm install --no-save a@2'', EvSpawn Npm [''install'', ''--no-save'', ''a@2'']] @ evs"
    by (auto simp: pm sample_world_def broken_prepare_env_def sample_env_def)
  then have "take 2 (trace (snd (bisect_step broken_prepare_env sample_opts sample_session (''a'', ''2'') (''P0'', ''L'') sample_world)))
     = [EvLog ''npm install --no-save a@2'', EvSpawn Npm [''install'', ''--no-save'', ''a@2'']]"
    by simp
  with rejected show ?thesis by simp
qed

subsection \<open>The end of the loop\<close>

lemma finish_run:
  "finish env opts s lastPkgFile w =
     runInstall env opts
       (if lastPkgFile \<noteq> pkgFile s
        then w\<lparr>files := (files w)(''package.json'' \<mapsto> lastPkgFile),
               trace := trace w @ [EvLog ''Saving partially upgraded package.json'',
                                   EvWrite ''package.json'' lastPkgFile]\<rparr>
        else w)"
  by (simp add: finish_def thn_def bnd_def ret_def console_log_def emit_def fs_writeFile_def)

lemma doctor_loop_done:
  assumes "prepare_session env opts w0 = (Val (Some s), w1)"
    and "try_all env opts s w1 = (Val (Inl ias), w2)"
    and "rollback env opts s ias w2 = (Val (), w3)"
    and "bisect env opts s (upgrades s) (pkgFile s, baseLockFile s) w3 = (Val st, w4)"
  shows "doctor env opts w0 = finish env opts s (fst st) w4"
  using assms(3,4)
  by (simp add: doctor_failed [OF assms(1,2)] recover_def bisect_and_finish_def thn_def bnd_def)

text \<open>
  Claim C5. When the loop over the upgrades has ended, the session writes the accumulated
  text to package.json (after a message) exactly when it differs from the text saved at
  the start, and then, in both cases, runs the install: the outcome and the final world of
  the session are those of that install.
\<close>

theorem doctor_finish:
  assumes prep: "prepare_session env opts w0 = (Val (Some s), w1)"
    and fail: "try_all env opts s w1 = (Val (Inl ias), w2)"
    and rb: "rollback env opts s ias w2 = (Val (), w3)"
    and loop: "bisect env opts s (upgrades s) (pkgFile s, baseLockFile s) w3 = (Val st, w4)"
  shows "doctor env opts w0 =
     runInstall env opts
       (if fst st \<noteq> pkgFile s
        then w4\<lparr>files := (files w4)(''package.json'' \<mapsto> fst st),
                trace := trace w4 @ [EvLog ''Saving partially upgraded package.json'',
                                    EvWrite ''package.json'' (fst st)]\<rparr>
        else w4)"
  by (simp only: doctor_loop_done [OF prep fail rb loop] finish_run)

theorem doctor_finish_witness:
  "doctor sample_env sample_opts sample_world =
     runInstall sample_env sample_opts
       ((snd (bisect sample_env sample_opts sample_session (upgrades sample_session) (''P0'', ''L'')
           (snd (rollback sample_env sample_opts sample_session True
              (snd (try_all sample_env sample_opts sample_session
                 (snd (prepare_session sample_env sample_opts sample_world))))))))
        \<lparr>files := (files (snd (bisect sample_env sample_opts sample_session (upgrades sample_session) (''P0'', ''L'')
           (snd (rollback sample_env sample_opts sample_session True
              (snd (try_all sample_env sample_opts sample_session
                 (snd (prepare_session sample_env sample_opts sample_world)))))))))
             (''package.json'' \<mapsto> ''P0+a@2+c@2''),
          trace := trace (snd (bisect sample_env sample_opts sample_session (upgrades sample_session) (''P0'', ''L'')
           (snd (rollback sample_env sample_opts sample_session True
              (snd (try_all sample_env sample_opts sample_session
                 (snd (prepare_session sample_env sample_opts sample_world)))))))) @
            [EvLog ''Saving partially upgraded package.json'', EvWrite ''package.json'' ''P0+a@2+c@2'']\<rparr>)"
proof -
  let ?w1 = "snd (prepare_session sample_env sample_opts sample_world)"
  let ?w2 = "snd (try_all sample_env sample_opts sample_session ?w1)"
  let ?w3 = "snd (rollback sample_env sample_opts sample_session True ?w2)"
  let ?w4 = "snd (bisect sample_env sample_opts sample_session (upgrades sample_session) (''P0'', ''L'') ?w3)"
  have prep: "prepare_session sample_env sample_opts sample_world = (Val (Some sample_session), ?w1)"
    by (rule pair_fst_snd) (simp add: run_defs)
  have fail: "try_all sample_env sample_opts sample_session ?w1 = (Val (Inl True), ?w2)"
    by (rule pair_fst_snd) (simp add: run_defs)
  have rb: "rollback sample_env sample_opts sample_session True ?w2 = (Val (), ?w3)"
    by (rule pair_fst_snd) (simp add: run_defs)
  have "bisect sample_env sample_opts sample_session (upgrades sample_session) (''P0'', ''L'') ?w3
      = (Val (''P0+a@2+c@2'', ''L+c@2''), ?w4)"
    by (rule pair_fst_snd) (simp add: run_defs check_mark_def cross_mark_def arrow_def)
  then have loop: "bisect sample_env sample_opts sample_session (upgrades sample_session)
      (pkgFile sample_session, baseLockFile sample_session) ?w3 = (Val (''P0+a@2+c@2'', ''L+c@2''), ?w4)"
    by (simp add: sample_session_def)
  from doctor_finish [OF prep fail rb loop] show ?thesis
    by (simp add: sample_session_def)
qed

lemma bisect_step_passed:
  assumes run: "bisect_step env opts s d st w = (Val st', w')"
    and pass: "fst (step_try env opts s (fst d) (snd d) w) = Val ()"
  shows "fst st' = upgradePackageData env (fst st) [(fst d, map_of (allDependencies s) (fst d))] [d]"
    and "files (snd (step_try env opts s (fst d) (snd d) w)) (lockFileName opts) = Some l \<Longrightarrow>
         snd st' = l \<and> files w' (lockFileName opts) = Some l"
proof -
  obtain w1 where t: "step_try env opts s (fst d) (snd d) w = (Val (), w1)"
    using pass by (cases "step_try env opts s (fst d) (snd d) w") simp
  show "fst st' = upgradePackageData env (fst st) [(fst d, map_of (allDependencies s) (fst d))] [d]"
    using run t
    by (auto simp: bisect_step_def bnd_def attempt_def fs_readFile_def ret_def Let_def step_catch_run
        split: option.splits)
  assume "files (snd (step_try env opts s (fst d) (snd d) w)) (lockFileName opts) = Some l"
  then have l: "files w1 (lockFileName opts) = Some l" by (simp add: t)
  from bisect_step_Val [OF t l, of st] run l
  show "snd st' = l \<and> files w' (lockFileName opts) = Some l" by auto
qed

lemma bisect_step_failed:
  assumes run: "bisect_step env opts s d st w = (Val st', w')"
    and fails: "fst (step_try env opts s (fst d) (snd d) w) = Thrown e"
  shows "st' = st"
proof -
  obtain w1 where t: "step_try env opts s (fst d) (snd d) w = (Thrown e, w1)"
    using fails by (cases "step_try env opts s (fst d) (snd d) w") simp
  from run show ?thesis
    by (simp add: bisect_step_Thrown [OF t] step_catch_run)
qed

text \<open>
  Claim C1. The batch has failed and the loop runs over three upgrades. The install, the
  prepare script and the tests succeed for the first and the third and one of them fails
  for the second. Then the accumulated text of package.json at the end of the loop is the
  saved text with the first and the third upgrade merged in by \<^verbatim>\<open>upgradePackageData\<close>, and
  not the second; this text is written to package.json (unless it equals the saved text)
  and the final install runs. The lock file that the third iteration finds is the saved
  lock file at the end of the loop, and it is the lock file on disk.
\<close>

theorem bisect_three:
  assumes prep: "prepare_session env opts w0 = (Val (Some s), w1)"
    and fail: "try_all env opts s w1 = (Val (Inl ias), w2)"
    and rb: "rollback env opts s ias w2 = (Val (), w3)"
    and ups: "upgrades s = [d1, d2, d3]"
    and s1: "bisect_step env opts s d1 (pkgFile s, baseLockFile s) w3 = (Val st1, w4)"
    and p1: "fst (step_try env opts s (fst d1) (snd d1) w3) = Val ()"
    and s2: "bisect_step env opts s d2 st1 w4 = (Val st2, w5)"
    and f2: "fst (step_try env opts s (fst d2) (snd d2) w4) = Thrown e"
    and s3: "bisect_step env opts s d3 st2 w5 = (Val st3, w6)"
    and p3: "fst (step_try env opts s (fst d3) (snd d3) w5) = Val ()"
  shows "fst st3 =
           upgradePackageData env
             (upgradePackageData env (pkgFile s) [(fst d1, map_of (allDependencies s) (fst d1))] [d1])
             [(fst d3, map_of (allDependencies s) (fst d3))] [d3]
       \<and> bisect env opts s (upgrades s) (pkgFile s, baseLockFile s) w3 = (Val st3, w6)
       \<and> doctor env opts w0 =
           runInstall env opts
             (if fst st3 \<noteq> pkgFile s
              then w6\<lparr>files := (files w6)(''package.json'' \<mapsto> fst st3),
                      trace := trace w6 @ [EvLog ''Saving partially upgraded package.json'',
                                          EvWrite ''package.json'' (fst st3)]\<rparr>
              else w6)
       \<and> (\<forall>l. files (snd (step_try env opts s (fst d3) (snd d3) w5)) (lockFileName opts) = Some l \<longrightarrow>
              snd st3 = l \<and> files w6 (lockFileName opts) = Some l)"
proof -
  have loop: "bisect env opts s (upgrades s) (pkgFile s, baseLockFile s) w3 = (Val st3, w6)"
    by (simp add: ups bnd_def s1 s2 s3 ret_def)
  have "fst st1 = upgradePackageData env (pkgFile s) [(fst d1, map_of (allDependencies s) (fst d1))] [d1]"
    using bisect_step_passed(1) [OF s1 p1] by simp
  moreover have "st2 = st1" by (rule bisect_step_failed [OF s2 f2])
  moreover have "fst st3 = upgradePackageData env (fst st2) [(fst d3, map_of (allDependencies s) (fst d3))] [d3]"
    by (rule bisect_step_passed(1) [OF s3 p3])
  ultimately have merged: "fst st3 =
           upgradePackageData env
             (upgradePackageData env (pkgFile s) [(fst d1, map_of (allDependencies s) (fst d1))] [d1])
             [(fst d3, map_of (allDependencies s) (fst d3))] [d3]"
    by simp
  have final: "doctor env opts w0 =
           runInstall env opts
             (if fst st3 \<noteq> pkgFile s
              then w6\<lparr>files := (files w6)(''package.json'' \<mapsto> fst st3),
                      trace := trace w6 @ [EvLog ''Saving partially upgraded package.json'',
                                          EvWrite ''package.json'' (fst st3)]\<rparr>
              else w6)"
    by (simp only: doctor_loop_done [OF prep fail rb loop] finish_run)
  have lock: "\<forall>l. files (snd (step_try env opts s (fst d3) (snd d3) w5)) (lockFileName opts) = Some l \<longrightarrow>
              snd st3 = l \<and> files w6 (lockFileName opts) = Some l"
    using bisect_step_passed(2) [OF s3 p3] by blast
  from merged loop final lock show ?thesis by blast
qed

theorem bisect_three_witness:
  "fst (bisect sample_env sample_opts sample_session [(''a'', ''2''), (''b'', ''2''), (''c'', ''2'')] (''P0'', ''L'')
          (snd (rollback sample_env sample_opts sample_session True
             (snd (try_all sample_env sample_opts sample_session
                (snd (prepare_session sample_env sample_opts sample_world)))))))
     = Val (''P0+a@2+c@2'', ''L+c@2'')"
proof -
  let ?w1 = "snd (prepare_session sample_env sample_opts sample_world)"
  let ?w2 = "snd (try_all sample_env sample_opts sample_session ?w1)"
  let ?w3 = "snd (rollback sample_env sample_opts sample_session True ?w2)"
  let ?w4 = "snd (bisect_step sample_env sample_opts sample_session (''a'', ''2'') (''P0'', ''L'') ?w3)"
  let ?w5 = "snd (bisect_step sample_env sample_opts sample_session (''b'', ''2'') (''P0+a@2'', ''L+a@2'') ?w4)"
  let ?w6 = "snd (bisect_step sample_env sample_opts sample_session (''c'', ''2'') (''P0+a@2'', ''L+a@2'') ?w5)"
  have prep: "prepare_session sample_env sample_opts sample_world = (Val (Some sample_session), ?w1)"
    by (rule pair_fst_snd) (simp add: run_defs)
  have fail: "try_all sample_env sample_opts sample_session ?w1 = (Val (Inl True), ?w2)"
    by (rule pair_fst_snd) (simp add: run_defs)
  have rb: "rollback sample_env sample_opts sample_session True ?w2 = (Val (), ?w3)"
    by (rule pair_fst_snd) (simp add: run_defs)
  have ups: "upgrades sample_session = [(''a'', ''2''), (''b'', ''2''), (''c'', ''2'')]"
    by (simp add: sample_session_def)
  have "bisect_step sample_env sample_opts sample_session (''a'', ''2'') (''P0'', ''L'') ?w3
      = (Val (''P0+a@2'', ''L+a@2''), ?w4)"
    by (rule pair_fst_snd) (simp add: run_defs)
  then have s1: "bisect_step sample_env sample_opts sample_session (''a'', ''2'')
      (pkgFile sample_session, baseLockFile sample_session) ?w3 = (Val (''P0+a@2'', ''L+a@2''), ?w4)"
    by (simp add: sample_session_def)
  have p1: "fst (step_try sample_env sample_opts sample_session (fst (''a'', ''2'')) (snd (''a'', ''2'')) ?w3) = Val ()"
    by (simp add: run_defs)
  have s2: "bisect_step sample_env sample_opts sample_session (''b'', ''2'') (''P0+a@2'', ''L+a@2'') ?w4
      = (Val (''P0+a@2'', ''L+a@2''), ?w5)"
    by (rule pair_fst_snd) (simp add: run_defs)
  have f2: "fst (step_try sample_env sample_opts sample_session (fst (''b'', ''2'')) (snd (''b'', ''2'')) ?w4)
      = Thrown (Rejected ''failed'')"
    by (simp add: run_defs)
  have s3: "bisect_step sample_env sample_opts sample_session (''c'', ''2'') (''P0+a@2'', ''L+a@2'') ?w5
      = (Val (''P0+a@2+c@2'', ''L+c@2''), ?w6)"
    by (rule pair_fst_snd) (simp add: run_defs)
  have p3: "fst (step_try sample_env sample_opts sample_session (fst (''c'', ''2'')) (snd (''c'', ''2'')) ?w5) = Val ()"
    by (simp add: run_defs)
  from bisect_three [OF prep fail rb ups s1 p1 s2 f2 s3 p3, THEN conjunct2, THEN conjunct1]
  show ?thesis by (simp add: sample_session_def)
qed

subsection \<open>The loop always returns\<close>

lemma never_exits_ret: "never_exits (ret x)"
  by (simp add: never_exits_def ret_def)

lemma never_exits_throw: "never_exits (throw e)"
  by (simp add: never_exits_def throw_def)

lemma never_exits_emit: "never_exits (emit e)"
  by (simp add: never_exits_def emit_def)

lemma never_exits_log: "never_exits (console_log t)"
  by (simp add: console_log_def never_exits_emit)

lemma never_exits_error: "never_exits (console_error t)"
  by (simp add: console_error_def never_exits_emit)

lemma never_exits_spawn: "never_exits (spawn env p args cb)"
  by (simp add: never_exits_def spawn_def Let_def split: option.splits)

lemma never_exits_readFile: "never_exits (fs_readFile env f)"
  by (simp add: never_exits_def fs_readFile_def split: option.splits)

lemma never_exits_writeFile: "never_exits (fs_writeFile f c)"
  by (simp add: never_exits_def fs_writeFile_def)

lemma never_exits_bnd: "never_exits f \<Longrightarrow> (\<And>x. never_exits (g x)) \<Longrightarrow> never_exits (bnd f g)"
  unfolding never_exits_def bnd_def
  by (auto split: prod.splits outcome.splits) (metis fst_conv)+

lemma never_exits_thn: "never_exits f \<Longrightarrow> never_exits g \<Longrightarrow> never_exits (thn f g)"
  by (simp add: thn_def never_exits_bnd)

lemma never_exits_attempt: "never_exits f \<Longrightarrow> never_exits (attempt f)"
  unfolding never_exits_def attempt_def
  by (auto split: prod.splits outcome.splits) (metis fst_conv)

lemma never_exits_try_catch: "never_exits f \<Longrightarrow> (\<And>e. never_exits (h e)) \<Longrightarrow> never_exits (try_catch f h)"
  unfolding never_exits_def try_catch_def
  by (auto split: prod.splits outcome.splits) (metis fst_conv)+

lemmas never_exits_intros = never_exits_ret never_exits_throw never_exits_emit never_exits_log
  never_exits_error never_exits_spawn never_exits_readFile never_exits_writeFile never_exits_bnd
  never_exits_thn never_exits_attempt never_exits_try_catch

lemma never_exits_npm: "never_exits (npm env args pm print)"
  unfolding npm_def by (auto intro!: never_exits_intros)

lemma never_exits_runInstall: "never_exits (runInstall env opts)"
  unfolding runInstall_def by (auto intro!: never_exits_intros never_exits_npm split: list.splits)

lemma never_exits_runTests: "never_exits (runTests env opts cb)"
  unfolding runTests_def by (auto intro!: never_exits_intros never_exits_npm split: list.splits)

lemma never_exits_step_try: "never_exits (step_try env opts s name version)"
  unfolding step_try_def
  by (auto intro!: never_exits_intros never_exits_npm never_exits_runTests split: sum.splits)

lemma bisect_step_returns: "\<exists>st' w'. bisect_step env opts s d st w = (Val st', w')"
proof -
  obtain r w1 where t: "step_try env opts s (fst d) (snd d) w = (r, w1)"
    by (cases "step_try env opts s (fst d) (snd d) w")
  show ?thesis
  proof (cases r)
    case (Val u)
    with t show ?thesis
      by (cases "files w1 (lockFileName opts)")
         (simp_all add: bisect_step_def bnd_def attempt_def fs_readFile_def ret_def Let_def step_catch_run)
  next
    case (Thrown e)
    with t show ?thesis by (simp add: bisect_step_Thrown step_catch_run)
  next
    case (Exited n)
    with t never_exits_step_try [of env opts s "fst d" "snd d"] show ?thesis
      by (auto simp: never_exits_def dest: spec [where x = w])
  qed
qed

lemma bisect_returns: "\<exists>st' w'. bisect env opts s ds st w = (Val st', w')"
proof (induction ds arbitrary: st w)
  case Nil
  show ?case by (simp add: ret_def)
next
  case (Cons d ds)
  obtain st1 w1 where "bisect_step env opts s d st w = (Val st1, w1)"
    using bisect_step_returns by blast
  with Cons.IH [of st1 w1] show ?case by (simp add: bnd_def)
qed

text \<open>
  When the install, the prepare script and the tests of an iteration succeed but there is
  no lock file to read afterwards, the read of line 237 throws inside the \<^verbatim>\<open>try\<close> block:
  the handler runs with the text of package.json that line 234 has already extended.
\<close>

lemma bisect_step_unreadable_lock:
  assumes "step_try env opts s (fst d) (snd d) w = (Val (), w1)"
    and "files w1 (lockFileName opts) = None"
  shows "bisect_step env opts s d st w =
     step_catch env opts s (fst d) (snd d) (read_error env (lockFileName opts))
       (upgradePackageData env (fst st) [(fst d, map_of (allDependencies s) (fst d))] [d], snd st)
       (w1\<lparr>trace := trace w1 @ [EvRead (lockFileName opts)]\<rparr>)"
  using assms by (simp add: bisect_step_def bnd_def attempt_def fs_readFile_def Let_def)

text \<open>The failures of the single install and of the tests reach the handler too.\<close>

lemma step_try_install_fails:
  assumes "npm env ((if packageManager opts = Some ''yarn'' then [''add''] else [''install'', ''--no-save''])
                    @ [name @ ''@'' @ version]) (packageManager opts) True w = (Thrown e, w1)"
  shows "step_try env opts s name version w = (Thrown e, w1)"
  using assms by (simp add: step_try_def thn_def bnd_def)

lemma step_try_tests_fail:
  assumes "npm env ((if packageManager opts = Some ''yarn'' then [''add''] else [''install'', ''--no-save''])
                    @ [name @ ''@'' @ version]) (packageManager opts) True w = (Val (), w1)"
    and "get_prop (pkg s) ''scripts'' = Inr sc"
    and "if truthy (opt_prop sc ''prepare'')
         then npm env [''run'', ''prepare''] (packageManager opts) True w1 = (Val (), w2)
         else w2 = w1"
    and "runTests env opts False w2 = (Thrown e, w3)"
  shows "step_try env opts s name version w = (Thrown e, w3)"
  using assms by (auto simp: step_try_def thn_def bnd_def try_catch_def ret_def split: if_splits)

text \<open>
  A package file that parses to \<^verbatim>\<open>null\<close> passes neither test of line 58: without a custom
  test command the read of \<^verbatim>\<open>pkg.scripts\<close> throws, before anything is installed.
\<close>

lemma doctor_null_package:
  assumes "\<not> truthy (packageData opts)" "\<not> truthy_str (packageFile opts)" "\<not> truthy_str (doctorTest opts)"
    and "files w ''package.json'' = Some t" "json_parse env t = Some JNull"
  shows "doctor env opts w =
     (Thrown (TypeError (''Cannot read properties of null (reading '' @ [CHR 0x27] @ ''scripts'' @ [CHR 0x27] @ '')'')),
      w\<lparr>trace := trace w @ [EvRead ''package.json'']\<rparr>)"
  using assms
  by (simp add: doctor_def prepare_session_def loadPackageFile_def bnd_def attempt_def fs_readFile_def
      ret_def throw_def)

text \<open>
  Claim C9, on a package.json that holds \<open>null\<close>, with no custom test command and neither
  \<^verbatim>\<open>--packageData\<close> nor \<^verbatim>\<open>--packageFile\<close>. The file is read and parses, so it is not reported
  as missing or invalid; it has no \<^verbatim>\<open>test\<close> script, yet the session prints no message and
  does not call \<^verbatim>\<open>process.exit\<close>: the read of \<^verbatim>\<open>pkg.scripts\<close> at line 58 throws a
  \<^verbatim>\<open>TypeError\<close>. Nothing was installed or written.
\<close>

theorem doctor_null_package_run:
  "doctor sample_env sample_opts \<lparr>files = [''package.json'' \<mapsto> ''null''], trace = []\<rparr> =
     (Thrown (TypeError (''Cannot read properties of null (reading '' @ [CHR 0x27] @ ''scripts'' @ [CHR 0x27] @ '')'')),
      \<lparr>files = [''package.json'' \<mapsto> ''null''], trace = [EvRead ''package.json'']\<rparr>)"
  by (simp add: run_defs)

end
